theory Spec2Isabelle
  imports Main
begin

section \<open>JavaScript helpers\<close>

text \<open>
  Errors are values. \<open>TypeError\<close> is what a property read on \<^verbatim>\<open>undefined\<close> raises,
  \<open>SyntaxError\<close> is \<^verbatim>\<open>JSON.parse\<close>'s, \<open>Error msg\<close> is \<^verbatim>\<open>new Error(msg)\<close>
  (the LLM client's failures and the handler's timeouts).
\<close>

datatype js_error = TypeError | SyntaxError | Error string

text \<open>Decimal rendering of a non-negative integer, as a template literal renders it.\<close>

definition digit_char :: "nat \<Rightarrow> char" where
  "digit_char d = char_of (48 + d)"

function show_nat :: "nat \<Rightarrow> string" where
  "show_nat n = (if n < 10 then [digit_char n] else show_nat (n div 10) @ [digit_char (n mod 10)])"
  by pat_completeness auto
termination
  by (relation "measure id") auto

declare show_nat.simps [simp del]

text \<open>
  \<^verbatim>\<open>xs.slice(0, end)\<close>: a negative \<open>end\<close> counts from the end of the array, and the
  result is clamped to the array.
\<close>

definition js_slice0 :: "'a list \<Rightarrow> int \<Rightarrow> 'a list" where
  "js_slice0 xs e =
     (let n = int (length xs);
          k = (if e < 0 then max (n + e) 0 else min e n)
      in take (nat k) xs)"

text \<open>\<^verbatim>\<open>Array.from({ length: k }, (_, i) => f(i))\<close>; a negative length gives the empty array.\<close>

definition array_from :: "int \<Rightarrow> (nat \<Rightarrow> 'a) \<Rightarrow> 'a list" where
  "array_from k f = map f [0..<nat k]"

section \<open>Strings\<close>

text \<open>
  Strings are lists of characters with code points below 256. Within that range the
  white space of \<^verbatim>\<open>String.prototype.trim\<close> and of the regular expression class
  \<^verbatim>\<open>\s\<close> is TAB, LF, VT, FF, CR, SPACE and NBSP; \<^verbatim>\<open>\w\<close> is \<^verbatim>\<open>[A-Za-z0-9_]\<close>.
\<close>

definition is_space :: "char \<Rightarrow> bool" where
  "is_space c \<longleftrightarrow>
     c \<in> set [CHR 0x09, CHR 0x0A, CHR 0x0B, CHR 0x0C, CHR 0x0D, CHR 0x20, CHR 0xA0]"

definition is_word_char :: "char \<Rightarrow> bool" where
  "is_word_char c \<longleftrightarrow>
     c \<in> set ''ABCDEFGHIJKLMNOPQRSTUVWXYZabcdefghijklmnopqrstuvwxyz0123456789_''"

definition js_trim :: "string \<Rightarrow> string" where
  "js_trim s = rev (dropWhile is_space (rev (dropWhile is_space s)))"

definition startsWith :: "string \<Rightarrow> string \<Rightarrow> bool" where
  "startsWith s p \<longleftrightarrow> take (length p) s = p"

definition endsWith :: "string \<Rightarrow> string \<Rightarrow> bool" where
  "endsWith s p \<longleftrightarrow> length p \<le> length s \<and> drop (length s - length p) s = p"

text \<open>\<^verbatim>\<open>s.split(c)\<close> for a one-character separator: never empty, \<^verbatim>\<open>''.split(c) = ['']\<close>.\<close>

fun split_on :: "char \<Rightarrow> string \<Rightarrow> string list" where
  "split_on c [] = [[]]"
| "split_on c (x # xs) =
     (if x = c then [] # split_on c xs
      else (case split_on c xs of
              [] \<Rightarrow> [[x]]
            | w # ws \<Rightarrow> (x # w) # ws))"

text \<open>\<^verbatim>\<open>xs.join(sep)\<close>\<close>

fun js_join :: "string \<Rightarrow> string list \<Rightarrow> string" where
  "js_join sep [] = []"
| "js_join sep [x] = x"
| "js_join sep (x # y # ys) = x @ sep @ js_join sep (y # ys)"

section \<open>Document summary (stub)\<close>

text \<open>\<^verbatim>\<open>url.split('/').pop() || 'document'\<close>\<close>

definition url_basename :: "string \<Rightarrow> string" where
  "url_basename url = last (split_on CHR ''/'' url)"

text \<open>
  \<^verbatim>\<open>name.replace(/\.[^.]+$/, '')\<close>: the match must run from a dot to the end of the name
  over one or more non-dot characters, so it starts at the last dot, and there is none
  when the name has no dot or ends with one.
\<close>

definition remove_extension :: "string \<Rightarrow> string" where
  "remove_extension name =
     (let ext = takeWhile (\<lambda>c. c \<noteq> CHR ''.'') (rev name)
      in if length ext < length name \<and> ext \<noteq> []
         then take (length name - length ext - 1) name
         else name)"

definition file_name :: "string \<Rightarrow> string" where
  "file_name url =
     (let name = (if url_basename url = [] then ''document'' else url_basename url)
      in remove_extension name)"

definition advisory_note :: string where
  "advisory_note =
     ''. '' @ [CHR 0x0A] @ ''  '' @ [CHR 0x0A] @
     ''Note: Document parsing is currently in development. For best results:'' @ [CHR 0x0A] @
     ''- Provide a detailed prompt describing the document content'' @ [CHR 0x0A] @
     ''- Include key topics, data, and insights you want in the presentation'' @ [CHR 0x0A] @
     ''- Specify the document structure if relevant (e.g., '' @ [CHR 0x22] @
     ''The document contains market analysis, competitor data, and growth projections'' @
     [CHR 0x22] @ '')''"

text \<open>\<^verbatim>\<open>parseDocuments\<close>; \<open>None\<close> is a missing argument (\<^verbatim>\<open>!docUrls\<close>).\<close>

definition parseDocuments :: "string list option \<Rightarrow> string" where
  "parseDocuments docUrls =
     (case docUrls of
        None \<Rightarrow> ''''
      | Some urls \<Rightarrow>
          if length urls = 0 then ''''
          else (let fileNames = map file_name urls
                in ''Documents uploaded: '' @ js_join '', '' fileNames @ advisory_note))"

section \<open>Cleaning the model's JSON\<close>

text \<open>
  \<^verbatim>\<open>JSON.parse\<close> as a recogniser of JSON texts (ECMA-404): white space is SPACE, TAB, LF
  and CR; a value is an object, an array, a string, a number or one of the three
  literals. Each function returns the input left after what it recognised. The nesting is
  followed with fuel; a text of length \<open>n\<close> is given \<open>2 * n + 2\<close>.
\<close>

definition json_ws :: "char \<Rightarrow> bool" where
  "json_ws c \<longleftrightarrow> c \<in> set [CHR 0x20, CHR 0x09, CHR 0x0A, CHR 0x0D]"

definition is_digit :: "char \<Rightarrow> bool" where
  "is_digit c \<longleftrightarrow> c \<in> set ''0123456789''"

definition is_hex :: "char \<Rightarrow> bool" where
  "is_hex c \<longleftrightarrow> c \<in> set ''0123456789abcdefABCDEF''"

function json_string_body :: "string \<Rightarrow> string option" where
  "json_string_body [] = None"
| "json_string_body (c # r) =
     (if c = CHR 0x22 then Some r
      else if c = CHR 0x5C then
        (case r of
           [] \<Rightarrow> None
         | e # r' \<Rightarrow>
             if e \<in> set [CHR 0x22, CHR 0x5C, CHR ''/'', CHR ''b'', CHR ''f'', CHR ''n'', CHR ''r'', CHR ''t'']
             then json_string_body r'
             else if e = CHR ''u'' \<and> 4 \<le> length r' \<and> list_all is_hex (take 4 r')
             then json_string_body (drop 4 r')
             else None)
      else if (of_char c :: nat) < 32 then None
      else json_string_body r)"
  by pat_completeness auto
termination
  by (relation "measure length") auto

definition json_fraction :: "string \<Rightarrow> string option" where
  "json_fraction s =
     (case s of
        [] \<Rightarrow> Some s
      | c # r \<Rightarrow>
          if c = CHR ''.''
          then (case r of [] \<Rightarrow> None
                | d # r' \<Rightarrow> if is_digit d then Some (dropWhile is_digit r') else None)
          else Some s)"

definition json_exponent :: "string \<Rightarrow> string option" where
  "json_exponent s =
     (case s of
        [] \<Rightarrow> Some s
      | c # r \<Rightarrow>
          if c = CHR ''e'' \<or> c = CHR ''E''
          then (let r1 = (case r of [] \<Rightarrow> r
                          | g # r' \<Rightarrow> if g = CHR ''+'' \<or> g = CHR ''-'' then r' else r)
                in case r1 of [] \<Rightarrow> None
                   | d # r' \<Rightarrow> if is_digit d then Some (dropWhile is_digit r') else None)
          else Some s)"

definition json_number :: "string \<Rightarrow> string option" where
  "json_number s =
     (let s1 = (case s of [] \<Rightarrow> s | c # r \<Rightarrow> if c = CHR ''-'' then r else s)
      in case s1 of
           [] \<Rightarrow> None
         | d # r \<Rightarrow>
             if \<not> is_digit d then None
             else (case json_fraction (if d = CHR ''0'' then r else dropWhile is_digit r) of
                     None \<Rightarrow> None
                   | Some r1 \<Rightarrow> json_exponent r1))"

fun json_value :: "nat \<Rightarrow> string \<Rightarrow> string option"
  and json_elements :: "nat \<Rightarrow> string \<Rightarrow> string option"
  and json_members :: "nat \<Rightarrow> string \<Rightarrow> string option" where
  "json_value 0 s = None"
| "json_value (Suc n) s =
     (case s of
        [] \<Rightarrow> None
      | c # r \<Rightarrow>
          if c = CHR ''{'' then
            (case dropWhile json_ws r of
               [] \<Rightarrow> None
             | d # r1 \<Rightarrow> if d = CHR ''}'' then Some r1 else json_members n (d # r1))
          else if c = CHR ''['' then
            (case dropWhile json_ws r of
               [] \<Rightarrow> None
             | d # r1 \<Rightarrow> if d = CHR '']'' then Some r1 else json_elements n (d # r1))
          else if c = CHR 0x22 then json_string_body r
          else if startsWith s ''true'' then Some (drop 4 s)
          else if startsWith s ''false'' then Some (drop 5 s)
          else if startsWith s ''null'' then Some (drop 4 s)
          else json_number s)"
| "json_elements 0 s = None"
| "json_elements (Suc n) s =
     (case json_value n s of
        None \<Rightarrow> None
      | Some r \<Rightarrow>
          (case dropWhile json_ws r of
             [] \<Rightarrow> None
           | c # r1 \<Rightarrow>
               if c = CHR '','' then json_elements n (dropWhile json_ws r1)
               else if c = CHR '']'' then Some r1
               else None))"
| "json_members 0 s = None"
| "json_members (Suc n) s =
     (case s of
        [] \<Rightarrow> None
      | q # r \<Rightarrow>
          if q \<noteq> CHR 0x22 then None
          else (case json_string_body r of
                  None \<Rightarrow> None
                | Some r1 \<Rightarrow>
                    (case dropWhile json_ws r1 of
                       [] \<Rightarrow> None
                     | c # r2 \<Rightarrow>
                         if c \<noteq> CHR '':'' then None
                         else (case json_value n (dropWhile json_ws r2) of
                                 None \<Rightarrow> None
                               | Some r3 \<Rightarrow>
                                   (case dropWhile json_ws r3 of
                                      [] \<Rightarrow> None
                                    | d # r4 \<Rightarrow>
                                        if d = CHR '','' then json_members n (dropWhile json_ws r4)
                                        else if d = CHR ''}'' then Some r4
                                        else None)))))"

definition json_parses :: "string \<Rightarrow> bool" where
  "json_parses s =
     (case json_value (2 * length s + 2) (dropWhile json_ws s) of
        None \<Rightarrow> False
      | Some r \<Rightarrow> dropWhile json_ws r = [])"

text \<open>\<^verbatim>\<open>s.replace(/^p/, '')\<close> and \<^verbatim>\<open>s.replace(/p$/, '')\<close> for a literal \<open>p\<close>.\<close>

definition strip_prefix :: "string \<Rightarrow> string \<Rightarrow> string" where
  "strip_prefix s p = (if startsWith s p then drop (length p) s else s)"

definition strip_suffix :: "string \<Rightarrow> string \<Rightarrow> string" where
  "strip_suffix s p = (if endsWith s p then take (length s - length p) s else s)"

definition fence :: string where
  "fence = [CHR 0x60, CHR 0x60, CHR 0x60]"

text \<open>
  \<^verbatim>\<open>/^(Okay|Sure|Here|Certainly|Here's|Here is)[,:]?\s*/i\<close>: the alternatives are tried in
  order and what follows them can match the empty string, so the first alternative that
  matches (ignoring the case of ASCII letters) is the one taken.
\<close>

definition ascii_lower :: "char \<Rightarrow> char" where
  "ascii_lower c =
     (case map_of (zip ''ABCDEFGHIJKLMNOPQRSTUVWXYZ'' ''abcdefghijklmnopqrstuvwxyz'') c of
        None \<Rightarrow> c
      | Some l \<Rightarrow> l)"

definition conversational_prefixes :: "string list" where
  "conversational_prefixes =
     [''Okay'', ''Sure'', ''Here'', ''Certainly'', ''Here'' @ [CHR 0x27] @ ''s'', ''Here is'']"

fun first_alternative :: "string list \<Rightarrow> string \<Rightarrow> string option" where
  "first_alternative [] s = None"
| "first_alternative (p # ps) s =
     (if map ascii_lower (take (length p) s) = map ascii_lower p then Some (drop (length p) s)
      else first_alternative ps s)"

definition strip_conversational :: "string \<Rightarrow> string" where
  "strip_conversational s =
     (case first_alternative conversational_prefixes s of
        None \<Rightarrow> s
      | Some r \<Rightarrow>
          dropWhile is_space
            (case r of [] \<Rightarrow> r | c # r' \<Rightarrow> if c = CHR '','' \<or> c = CHR '':'' then r' else r))"

text \<open>\<^verbatim>\<open>s.replace(/ab/g, rep)\<close> for a pattern of two literal characters.\<close>

fun replace_pair :: "char \<Rightarrow> char \<Rightarrow> string \<Rightarrow> string \<Rightarrow> string" where
  "replace_pair a b rep (x # y # r) =
     (if x = a \<and> y = b then rep @ replace_pair a b rep r
      else x # replace_pair a b rep (y # r))"
| "replace_pair a b rep r = r"

definition cleanJSONResponse :: "string \<Rightarrow> string" where
  "cleanJSONResponse response =
     (let cleaned = js_trim response;
          cleaned =
            (if startsWith cleaned (fence @ ''json'')
             then strip_suffix (strip_prefix cleaned (fence @ ''json'' @ [CHR 0x0A])) (CHR 0x0A # fence)
             else if startsWith cleaned fence
             then strip_suffix (strip_prefix cleaned (fence @ [CHR 0x0A])) (CHR 0x0A # fence)
             else cleaned);
          cleaned = strip_conversational cleaned
      in if json_parses cleaned then cleaned
         else js_trim
                (replace_pair (CHR 0x5C) (CHR 0x27) [CHR 0x27]
                  (replace_pair (CHR 0x5C) (CHR 0x22) [CHR 0x22]
                    (replace_pair (CHR 0x5C) (CHR 0x5C) [CHR 0x5C]
                      (replace_pair (CHR 0x5C) CHR ''n'' '' '' cleaned)))))"

section \<open>Outlines\<close>

text \<open>
  The outline is what \<^verbatim>\<open>JSON.parse\<close> gave for the model's answer, so parts of it may be
  missing: \<open>None\<close> stands for \<^verbatim>\<open>undefined\<close> where the source guards the read with
  \<^verbatim>\<open>?.\<close> (\<^verbatim>\<open>parsed.sections\<close>, \<^verbatim>\<open>section.slides\<close>). What is present has the declared
  shape: \<open>sections\<close> is an array of section objects and \<open>slides\<close> an array of slot
  objects. Slide counts are integers (the request schema's \<^verbatim>\<open>z.number()\<close> does not ask for
  one; fractional counts are outside this model).
\<close>

record slot =
  slot_title :: string
  slot_layout :: string
  slot_section :: string

record outline_section =
  sec_name :: string
  sec_slides :: "slot list option"

record outline =
  out_title :: string
  out_sections :: "outline_section list option"

record outline_params =
  slide_count :: int
  audience :: string
  tone :: string
  topic_or_prompt_or_instructions :: string
  doc_summary_or_empty :: string

text \<open>\<^verbatim>\<open>parsed.sections?.reduce((sum, section) => sum + (section.slides?.length || 0), 0) || 0\<close>\<close>

definition slides_length_or_0 :: "outline_section \<Rightarrow> int" where
  "slides_length_or_0 s = (case sec_slides s of None \<Rightarrow> 0 | Some l \<Rightarrow> int (length l))"

definition totalSlides_lenient :: "outline \<Rightarrow> int" where
  "totalSlides_lenient parsed =
     (case out_sections parsed of
        None \<Rightarrow> 0
      | Some ss \<Rightarrow> foldl (\<lambda>sum s. sum + slides_length_or_0 s) 0 ss)"

text \<open>
  \<^verbatim>\<open>const lastSection = parsed.sections[parsed.sections.length - 1]\<close> followed by a use of
  \<^verbatim>\<open>lastSection.slides\<close>: reading \<^verbatim>\<open>.length\<close> of a missing \<open>sections\<close>, \<^verbatim>\<open>.slides\<close> of
  the missing last element of an empty array, or \<^verbatim>\<open>.push\<close>/\<^verbatim>\<open>.length\<close> of missing slides
  raises TypeError.
\<close>

definition lastSection_slides :: "outline \<Rightarrow> js_error + (outline_section list \<times> slot list)" where
  "lastSection_slides parsed =
     (case out_sections parsed of
        None \<Rightarrow> Inl TypeError
      | Some ss \<Rightarrow>
          if ss = [] then Inl TypeError
          else (case sec_slides (last ss) of
                  None \<Rightarrow> Inl TypeError
                | Some l \<Rightarrow> Inr (ss, l)))"

text \<open>Assigning the slide list of the last section (the object is mutated in place).\<close>

definition set_last_slides :: "outline \<Rightarrow> outline_section list \<Rightarrow> slot list \<Rightarrow> outline" where
  "set_last_slides parsed ss l =
     parsed\<lparr>out_sections := Some (butlast ss @ [(last ss)\<lparr>sec_slides := Some l\<rparr>])\<rparr>"

text \<open>The slides pushed by \<^verbatim>\<open>for (let i = 0; i < needed; i++) lastSection.slides.push({...})\<close>.\<close>

definition additional_slot :: "string \<Rightarrow> nat \<Rightarrow> slot" where
  "additional_slot secname i =
     \<lparr>slot_title = ''Additional Key Point '' @ show_nat (i + 1),
      slot_layout = ''title_bullets'',
      slot_section = secname\<rparr>"

definition additional_slots :: "string \<Rightarrow> int \<Rightarrow> slot list" where
  "additional_slots secname needed = map (additional_slot secname) [0..<nat needed]"

text \<open>
  The two branches of the reconciliation, shared verbatim by \<^verbatim>\<open>generateOutline\<close>
  (deck-generator.ts 156-177) and the route handler (route.ts 148-169); \<open>totalSlides\<close> is the
  count each of them computed beforehand.
\<close>

definition adjust_to_count :: "int \<Rightarrow> int \<Rightarrow> outline \<Rightarrow> js_error + outline" where
  "adjust_to_count totalSlides n parsed =
     (if totalSlides \<noteq> n then
        if totalSlides < n then
          (case lastSection_slides parsed of
             Inl e \<Rightarrow> Inl e
           | Inr (ss, l) \<Rightarrow>
               Inr (set_last_slides parsed ss (l @ additional_slots (sec_name (last ss)) (n - totalSlides))))
        else
          (case lastSection_slides parsed of
             Inl e \<Rightarrow> Inl e
           | Inr (ss, l) \<Rightarrow>
               Inr (set_last_slides parsed ss (js_slice0 l (int (length l) - (totalSlides - n)))))
      else Inr parsed)"

text \<open>
  The body of the \<^verbatim>\<open>try\<close> of \<^verbatim>\<open>generateOutline\<close> after \<^verbatim>\<open>JSON.parse\<close>. The final
  validation reads \<^verbatim>\<open>parsed.sections.reduce\<close> without \<^verbatim>\<open>?.\<close>, so it raises on a missing
  \<open>sections\<close>; a wrong final count is only logged.
\<close>

definition generateOutline_try :: "outline_params \<Rightarrow> outline \<Rightarrow> js_error + outline" where
  "generateOutline_try params parsed =
     (case adjust_to_count (totalSlides_lenient parsed) (slide_count params) parsed of
        Inl e \<Rightarrow> Inl e
      | Inr adjusted \<Rightarrow>
          (case out_sections adjusted of
             None \<Rightarrow> Inl TypeError
           | Some ss \<Rightarrow> Inr adjusted))"

text \<open>The \<^verbatim>\<open>catch\<close> branch: three sections built from the requested count alone.\<close>

definition opening_slot :: "string \<Rightarrow> nat \<Rightarrow> slot" where
  "opening_slot topic i =
     \<lparr>slot_title = (if i = 0 then ''**'' @ topic @ ''**: What You Need to Know''
                     else ''Current State & Trends''),
      slot_layout = ''title_bullets'',
      slot_section = ''Opening''\<rparr>"

definition analysis_slot :: "int \<Rightarrow> nat \<Rightarrow> slot" where
  "analysis_slot analysisSlides i =
     \<lparr>slot_title = (if i = 0 then ''Key Challenges & Opportunities''
                     else if i = 1 then ''Data-Driven Insights''
                     else ''Key Point '' @ show_nat (i + 1)),
      slot_layout = (if i = 1 \<and> analysisSlides > 1 then ''chart'' else ''title_bullets''),
      slot_section = ''Analysis''\<rparr>"

definition conclusion_slot :: "nat \<Rightarrow> slot" where
  "conclusion_slot i =
     \<lparr>slot_title = (if i = 0 then ''Impact & Results'' else ''Next Steps & Takeaways''),
      slot_layout = ''title_bullets'',
      slot_section = ''Conclusion''\<rparr>"

definition fallbackOutline :: "outline_params \<Rightarrow> outline" where
  "fallbackOutline params =
     (let topic = topic_or_prompt_or_instructions params;
          slideCount = slide_count params;
          remaining = slideCount;
          openingSlides = min 2 remaining;
          sections1 = [\<lparr>sec_name = ''Opening'',
                        sec_slides = Some (array_from openingSlides (opening_slot topic))\<rparr>];
          remaining = remaining - openingSlides;
          analysisSlides = max 1 (remaining - 2);
          sections2 = sections1 @
                      [\<lparr>sec_name = ''Analysis'',
                        sec_slides = Some (array_from analysisSlides (analysis_slot analysisSlides))\<rparr>];
          remaining = remaining - analysisSlides;
          sections3 = (if remaining > 0
                       then sections2 @
                            [\<lparr>sec_name = ''Conclusion'',
                              sec_slides = Some (array_from remaining conclusion_slot)\<rparr>]
                       else sections2)
      in \<lparr>out_title = ''**'' @ topic @ ''**: Key Insights & Analysis'',
          out_sections = Some sections3\<rparr>)"

text \<open>
  \<^verbatim>\<open>generateOutline\<close>. \<open>reply\<close> is the outcome of
  \<^verbatim>\<open>JSON.parse(cleanJSONResponse(await llmClient.generateContent(prompt)))\<close>: the parsed
  value, or the error one of the three steps raised. The result is a sum so that a
  rejected promise would be a value \<open>Inl\<close>.
\<close>

definition generateOutline :: "outline_params \<Rightarrow> js_error + outline \<Rightarrow> js_error + outline" where
  "generateOutline params reply =
     (case (case reply of Inl e \<Rightarrow> Inl e | Inr parsed \<Rightarrow> generateOutline_try params parsed) of
        Inl error \<Rightarrow> Inr (fallbackOutline params)
      | Inr parsed \<Rightarrow> Inr parsed)"

section \<open>Slide drafts\<close>

text \<open>
  JSON values as \<^verbatim>\<open>JSON.parse\<close> and \<^verbatim>\<open>request.json()\<close> deliver them; numbers are
  restricted to integers. An object is its list of members (with distinct keys), looked
  up with \<open>map_of\<close>.
\<close>

datatype json =
  JNull | JBool bool | JNum int | JStr string | JArr "json list" | JObj "(string \<times> json) list"

text \<open>
  \<^verbatim>\<open>encodeURIComponent\<close> on code points below 256: the unreserved characters stay, every
  other character becomes the percent-encoded bytes of its UTF-8 form (one byte below
  128, two bytes from 128 on).
\<close>

definition uri_unreserved :: "char \<Rightarrow> bool" where
  "uri_unreserved c \<longleftrightarrow>
     c \<in> set ''ABCDEFGHIJKLMNOPQRSTUVWXYZabcdefghijklmnopqrstuvwxyz0123456789-_.!~*()''
     \<or> c = CHR 0x27"

definition hex_digit :: "nat \<Rightarrow> char" where
  "hex_digit d = ''0123456789ABCDEF'' ! (d mod 16)"

definition percent_byte :: "nat \<Rightarrow> string" where
  "percent_byte b = [CHR ''%'', hex_digit (b div 16), hex_digit (b mod 16)]"

definition encode_char :: "char \<Rightarrow> string" where
  "encode_char c =
     (if uri_unreserved c then [c]
      else (let n = (of_char c :: nat)
            in if n < 128 then percent_byte n
               else percent_byte (192 + n div 64) @ percent_byte (128 + n mod 64)))"

definition encodeURIComponent :: "string \<Rightarrow> string" where
  "encodeURIComponent s = concat (map encode_char s)"

text \<open>
  \<^verbatim>\<open>topic.replace(/[^\w\s]/g, '').split(' ').filter(word => word.length > 3).slice(0, 3)\<close>
\<close>

definition keywords_of :: "string \<Rightarrow> string list" where
  "keywords_of topic =
     take 3 (filter (\<lambda>word. length word > 3)
               (split_on CHR '' '' (filter (\<lambda>c. is_word_char c \<or> is_space c) topic)))"

definition unsplash_prefix :: string where
  "unsplash_prefix = ''https://source.unsplash.com/800x600/?''"

definition generateUnsplashUrl :: "string \<Rightarrow> string" where
  "generateUnsplashUrl topic =
     (let keywords = js_join '','' (keywords_of topic);
          searchTerm = (if keywords = [] then ''business,presentation,professional'' else keywords)
      in unsplash_prefix @ encodeURIComponent searchTerm)"

text \<open>
  The parsed slide. \<open>None\<close> is a missing (or \<^verbatim>\<open>null\<close>) member; \<open>year\<close> below is
  \<^verbatim>\<open>new Date().getFullYear()\<close>.
\<close>

record image =
  img_prompt :: string
  img_alt :: string
  img_source :: "string option"

record draft =
  d_title :: string
  d_bullets :: "string list"
  d_notes :: string
  d_chart_spec :: "json option"
  d_citations :: "string list option"
  d_image :: "image option"

definition generateCitations :: "string \<Rightarrow> nat \<Rightarrow> string list" where
  "generateCitations topic year =
     [''Industry research on '' @ topic @ '', '' @ show_nat year,
      ''Market analysis and trends, '' @ show_nat (year - 1) @ ''-'' @ show_nat year]"

text \<open>
  Lines 316-326: \<^verbatim>\<open>!parsed.image\<close>, then
  \<^verbatim>\<open>!parsed.image.source || parsed.image.source === 'placeholder'\<close> (the empty string is
  falsy).
\<close>

definition ensure_image :: "slot \<Rightarrow> draft \<Rightarrow> draft" where
  "ensure_image slide_context parsed =
     (case d_image parsed of
        None \<Rightarrow>
          parsed\<lparr>d_image := Some
            \<lparr>img_prompt = ''Professional '' @ slot_title slide_context
                            @ '' diagram with modern, clean design'',
             img_alt = ''Visual representation of '' @ slot_title slide_context,
             img_source = Some (generateUnsplashUrl (slot_title slide_context))\<rparr>\<rparr>
      | Some img \<Rightarrow>
          if img_source img = None \<or> img_source img = Some ''''
             \<or> img_source img = Some ''placeholder''
          then parsed\<lparr>d_image :=
                 Some (img\<lparr>img_source := Some (generateUnsplashUrl (slot_title slide_context))\<rparr>)\<rparr>
          else parsed)"

definition fallbackSlide :: "slot \<Rightarrow> nat \<Rightarrow> draft" where
  "fallbackSlide slide_context year =
     (let topic = (if slot_title slide_context = [] then ''Key Concepts''
                   else slot_title slide_context)
      in \<lparr>d_title = ''**'' @ topic @ ''**: Overview'',
          d_bullets = [''**Core Concept**: '' @ topic @ '' fundamentals'',
                       ''**Key Metrics**: Measurable outcomes'',
                       ''**Innovation**: Latest developments''],
          d_notes = '''',
          d_chart_spec = None,
          d_citations = Some (generateCitations topic year),
          d_image = Some
            \<lparr>img_prompt = ''Modern infographic showing '' @ topic
               @ '' with icons, arrows, and data visualizations in a clean, professional style'',
             img_alt = topic @ '' concept diagram'',
             img_source = Some (generateUnsplashUrl topic)\<rparr>\<rparr>)"

text \<open>
  \<^verbatim>\<open>generateSlide\<close>; \<open>reply\<close> is the outcome of the model call, the cleaning and the
  parse, as for the outline.
\<close>

definition generateSlide :: "slot \<Rightarrow> nat \<Rightarrow> js_error + draft \<Rightarrow> js_error + draft" where
  "generateSlide slide_context year reply =
     (case (case reply of Inl e \<Rightarrow> Inl e | Inr parsed \<Rightarrow> Inr (ensure_image slide_context parsed)) of
        Inl error \<Rightarrow> Inr (fallbackSlide slide_context year)
      | Inr parsed \<Rightarrow> Inr parsed)"

section \<open>Route handler: slide-count reconciliation\<close>

text \<open>
  \<^verbatim>\<open>outline.sections.reduce((sum, section) => sum + section.slides.length, 0)\<close>: the handler
  reads \<^verbatim>\<open>.length\<close> without a guard, so a section without slides raises TypeError (and
  the request ends in the handler's outer \<^verbatim>\<open>catch\<close>).
\<close>

fun reduce_slides_length :: "int \<Rightarrow> outline_section list \<Rightarrow> js_error + int" where
  "reduce_slides_length acc [] = Inr acc"
| "reduce_slides_length acc (s # ss) =
     (case sec_slides s of
        None \<Rightarrow> Inl TypeError
      | Some l \<Rightarrow> reduce_slides_length (acc + int (length l)) ss)"

definition totalSlidesInOutline :: "outline \<Rightarrow> js_error + int" where
  "totalSlidesInOutline outline =
     (case out_sections outline of
        None \<Rightarrow> Inl TypeError
      | Some ss \<Rightarrow> reduce_slides_length 0 ss)"

definition route_reconcile :: "int \<Rightarrow> outline \<Rightarrow> js_error + outline" where
  "route_reconcile n outline =
     (case totalSlidesInOutline outline of
        Inl e \<Rightarrow> Inl e
      | Inr t \<Rightarrow> adjust_to_count t n outline)"

section \<open>Route handler: request validation\<close>

text \<open>
  \<^verbatim>\<open>GenerateDeckRequestSchema.parse(body)\<close>. The schema is the one declared in route.ts; the
  combinators follow the zod library: a validator receives the member of the body
  (\<open>None\<close> when the key is absent) and returns the parsed value or the issues it found.
  An issue is kept as its path joined with dots, which is what the handler reports as
  \<^verbatim>\<open>field\<close>; the library's message texts are not modelled. \<^verbatim>\<open>null\<close> is a value, not an
  absent key, so it satisfies neither \<^verbatim>\<open>.optional()\<close> nor \<^verbatim>\<open>.default()\<close>.
\<close>

type_synonym 'a zod_result = "string list + 'a"

definition issues_of :: "'a zod_result \<Rightarrow> string list" where
  "issues_of r = (case r of Inl issues \<Rightarrow> issues | Inr v \<Rightarrow> [])"

definition zod_enum :: "string \<Rightarrow> string list \<Rightarrow> json option \<Rightarrow> string zod_result" where
  "zod_enum path options v =
     (case v of
        Some (JStr s) \<Rightarrow> if s \<in> set options then Inr s else Inl [path]
      | _ \<Rightarrow> Inl [path])"

definition zod_string :: "string \<Rightarrow> json option \<Rightarrow> string zod_result" where
  "zod_string path v = (case v of Some (JStr s) \<Rightarrow> Inr s | _ \<Rightarrow> Inl [path])"

definition zod_boolean :: "string \<Rightarrow> json option \<Rightarrow> bool zod_result" where
  "zod_boolean path v = (case v of Some (JBool b) \<Rightarrow> Inr b | _ \<Rightarrow> Inl [path])"

definition zod_number_min_max :: "string \<Rightarrow> int \<Rightarrow> int \<Rightarrow> json option \<Rightarrow> int zod_result" where
  "zod_number_min_max path lo hi v =
     (case v of
        Some (JNum n) \<Rightarrow> if n < lo then Inl [path] else if n > hi then Inl [path] else Inr n
      | _ \<Rightarrow> Inl [path])"

definition zod_default :: "'a \<Rightarrow> (json option \<Rightarrow> 'a zod_result) \<Rightarrow> json option \<Rightarrow> 'a zod_result" where
  "zod_default d inner v = (case v of None \<Rightarrow> Inr d | Some x \<Rightarrow> inner v)"

definition zod_optional :: "(json option \<Rightarrow> 'a zod_result) \<Rightarrow> json option \<Rightarrow> 'a option zod_result" where
  "zod_optional inner v =
     (case v of
        None \<Rightarrow> Inr None
      | Some x \<Rightarrow> (case inner v of Inl issues \<Rightarrow> Inl issues | Inr a \<Rightarrow> Inr (Some a)))"

text \<open>\<^verbatim>\<open>z.array(z.string())\<close>: one issue per element that is not a string, at \<open>path.index\<close>.\<close>

definition zod_array_string :: "string \<Rightarrow> json option \<Rightarrow> string list zod_result" where
  "zod_array_string path v =
     (case v of
        Some (JArr xs) \<Rightarrow>
          (let issues = concat (map (\<lambda>(i, x). case x of JStr s \<Rightarrow> []
                                                  | _ \<Rightarrow> [path @ ''.'' @ show_nat i])
                                   (enumerate 0 xs))
           in if issues = []
              then Inr (concat (map (\<lambda>x. case x of JStr s \<Rightarrow> [s] | _ \<Rightarrow> []) xs))
              else Inl issues)
      | _ \<Rightarrow> Inl [path])"

record assets =
  doc_urls :: "string list option"
  image_urls :: "string list option"
  xlsx_urls :: "string list option"

definition zod_assets :: "json option \<Rightarrow> assets zod_result" where
  "zod_assets v =
     (case v of
        Some (JObj kv) \<Rightarrow>
          (let d = zod_optional (zod_array_string ''assets.doc_urls'') (map_of kv ''doc_urls'');
               i = zod_optional (zod_array_string ''assets.image_urls'') (map_of kv ''image_urls'');
               x = zod_optional (zod_array_string ''assets.xlsx_urls'') (map_of kv ''xlsx_urls'');
               issues = issues_of d @ issues_of i @ issues_of x
           in if issues = []
              then Inr \<lparr>doc_urls = projr d, image_urls = projr i, xlsx_urls = projr x\<rparr>
              else Inl issues)
      | _ \<Rightarrow> Inl [''assets''])"

record request_data =
  req_mode :: string
  req_topic_or_prompt :: "string option"
  req_instructions :: "string option"
  req_tone :: string
  req_audience :: string
  req_slide_count :: int
  req_theme :: string
  req_live_widgets :: bool
  req_assets :: "assets option"

definition mode_enum :: "string list" where
  "mode_enum = [''quick_prompt'', ''doc_to_deck'']"

definition tone_enum :: "string list" where
  "tone_enum = [''professional'', ''casual'', ''academic'', ''persuasive'']"

definition audience_enum :: "string list" where
  "audience_enum = [''general'', ''executives'', ''technical'', ''students'']"

definition theme_enum :: "string list" where
  "theme_enum = [''deep_space'', ''ultra_violet'', ''minimal'', ''corporate'']"

definition GenerateDeckRequestSchema_parse :: "json \<Rightarrow> request_data zod_result" where
  "GenerateDeckRequestSchema_parse body =
     (case body of
        JObj kv \<Rightarrow>
          (let mode = zod_enum ''mode'' mode_enum (map_of kv ''mode'');
               topic_or_prompt = zod_optional (zod_string ''topic_or_prompt'') (map_of kv ''topic_or_prompt'');
               instructions = zod_optional (zod_string ''instructions'') (map_of kv ''instructions'');
               tone = zod_default ''professional'' (zod_enum ''tone'' tone_enum) (map_of kv ''tone'');
               audience = zod_default ''general'' (zod_enum ''audience'' audience_enum) (map_of kv ''audience'');
               slide_count = zod_default 10 (zod_number_min_max ''slide_count'' 3 50) (map_of kv ''slide_count'');
               theme = zod_default ''deep_space'' (zod_enum ''theme'' theme_enum) (map_of kv ''theme'');
               live_widgets = zod_default False (zod_boolean ''live_widgets'') (map_of kv ''live_widgets'');
               assets = zod_optional zod_assets (map_of kv ''assets'');
               issues = issues_of mode @ issues_of topic_or_prompt @ issues_of instructions
                        @ issues_of tone @ issues_of audience @ issues_of slide_count
                        @ issues_of theme @ issues_of live_widgets @ issues_of assets
           in if issues = []
              then Inr \<lparr>req_mode = projr mode,
                        req_topic_or_prompt = projr topic_or_prompt,
                        req_instructions = projr instructions,
                        req_tone = projr tone,
                        req_audience = projr audience,
                        req_slide_count = projr slide_count,
                        req_theme = projr theme,
                        req_live_widgets = projr live_widgets,
                        req_assets = projr assets\<rparr>
              else Inl issues)
      | _ \<Rightarrow> Inl [''''])"

section \<open>Route handler: slide generation\<close>

record visual =
  v_prompt :: string
  v_alt :: string

text \<open>
  \<^verbatim>\<open>generateVisual\<close> returns what \<^verbatim>\<open>JSON.parse\<close> gave, as it is; \<open>None\<close> is the value
  \<^verbatim>\<open>null\<close>, on which the handler's \<^verbatim>\<open>visual.prompt\<close> raises TypeError.
\<close>

definition generateVisual ::
  "string \<Rightarrow> string list \<Rightarrow> string \<Rightarrow> js_error + visual option \<Rightarrow> js_error + visual option" where
  "generateVisual title bullets theme_style reply =
     (case reply of
        Inl error \<Rightarrow> Inr (Some \<lparr>v_prompt = ''Minimalist illustration of '' @ title,
                                 v_alt = ''Visual representation of '' @ title\<rparr>)
      | Inr parsed \<Rightarrow> Inr parsed)"

definition harvestFactsForSlide :: "string \<Rightarrow> string \<Rightarrow> string" where
  "harvestFactsForSlide docSummary title = ''''"

definition tableMatchesTitle :: "string \<Rightarrow> string \<Rightarrow> bool" where
  "tableMatchesTitle docSummary title = False"

definition tableForTitle :: "string \<Rightarrow> string \<Rightarrow> json option" where
  "tableForTitle docSummary title = None"

definition attachChartSpec :: "draft \<Rightarrow> json option \<Rightarrow> draft" where
  "attachChartSpec d table = d"

text \<open>\<^verbatim>\<open>themes[theme].image_style\<close>; reading it for an unknown theme raises TypeError.\<close>

definition theme_image_style :: "string \<Rightarrow> string option" where
  "theme_image_style theme =
     map_of [(''deep_space'', ''dark, subtle starfield, soft glow, high contrast''),
             (''ultra_violet'', ''vibrant violet gradients, glassmorphism, soft blur''),
             (''minimal'', ''clean, minimalist, high contrast, geometric''),
             (''corporate'', ''professional, clean, corporate blue accents'')] theme"

record slide =
  s_layout :: string
  s_title :: string
  s_bullets :: "string list"
  s_notes :: string
  s_chart_spec :: "json option"
  s_image :: image
  s_citations :: "string list"

record deck =
  deck_title :: string
  deck_theme :: string
  deck_slides :: "slide list"

text \<open>
  The world outside the handler. Each reply is the outcome of one model call followed by
  cleaning and parsing; the \<open>timed_out\<close> flags say whether the timer of the corresponding
  \<^verbatim>\<open>Promise.race\<close> fires first. Slide calls are indexed by \<^verbatim>\<open>currentSlide\<close>.
\<close>

record llm_env =
  outline_reply :: "outline_params \<Rightarrow> js_error + outline"
  outline_timed_out :: bool
  slide_reply :: "nat \<Rightarrow> slot \<Rightarrow> string \<Rightarrow> js_error + draft"
  slide_timed_out :: "nat \<Rightarrow> bool"
  visual_reply :: "nat \<Rightarrow> string \<Rightarrow> string list \<Rightarrow> string \<Rightarrow> js_error + visual option"
  visual_timed_out :: "nat \<Rightarrow> bool"
  current_year :: nat

datatype llm_call = OutlineCall | SlideCall nat | VisualCall nat

definition promise_race :: "bool \<Rightarrow> string \<Rightarrow> js_error + 'a \<Rightarrow> js_error + 'a" where
  "promise_race timed_out message settled = (if timed_out then Inl (Error message) else settled)"

text \<open>The fallback slide pushed by the inner \<^verbatim>\<open>catch\<close> (route.ts 219-231).\<close>

definition placeholder_slide :: "slot \<Rightarrow> slide" where
  "placeholder_slide slot =
     \<lparr>s_layout = slot_layout slot,
      s_title = slot_title slot,
      s_bullets = [''Content generation in progress...''],
      s_notes = ''This slide content is being generated.'',
      s_chart_spec = None,
      s_image = \<lparr>img_prompt = ''Visual for '' @ slot_title slot, img_alt = slot_title slot,
                 img_source = Some ''generated''\<rparr>,
      s_citations = []\<rparr>"

text \<open>
  The body of the inner \<^verbatim>\<open>try\<close> (route.ts 182-218) for slide number \<open>k\<close>: the slide it
  pushes or the error it raises, with the model calls it started.
\<close>

definition slide_attempt ::
  "llm_env \<Rightarrow> string \<Rightarrow> string \<Rightarrow> nat \<Rightarrow> slot \<Rightarrow> (js_error + slide) \<times> llm_call list" where
  "slide_attempt env docSummary theme k slot =
     (let perSlideFacts = (if docSummary \<noteq> [] then harvestFactsForSlide docSummary (slot_title slot)
                           else '''')
      in case promise_race (slide_timed_out env k)
                (''Slide generation timed out for: '' @ slot_title slot)
                (generateSlide slot (current_year env) (slide_reply env k slot perSlideFacts)) of
           Inl e \<Rightarrow> (Inl e, [SlideCall k])
         | Inr draft \<Rightarrow>
             (let withChart =
                    (if d_chart_spec draft = None \<and> tableMatchesTitle docSummary (slot_title slot)
                     then attachChartSpec draft (tableForTitle docSummary (slot_title slot))
                     else draft)
              in case theme_image_style theme of
                   None \<Rightarrow> (Inl TypeError, [SlideCall k])
                 | Some style \<Rightarrow>
                     (case promise_race (visual_timed_out env k) ''Visual generation timed out''
                             (generateVisual (d_title draft) (d_bullets draft) style
                                (visual_reply env k (d_title draft) (d_bullets draft) style)) of
                        Inl e \<Rightarrow> (Inl e, [SlideCall k, VisualCall k])
                      | Inr None \<Rightarrow> (Inl TypeError, [SlideCall k, VisualCall k])
                      | Inr (Some visual) \<Rightarrow>
                          (Inr \<lparr>s_layout = slot_layout slot,
                                s_title = d_title draft,
                                s_bullets = d_bullets draft,
                                s_notes = d_notes draft,
                                s_chart_spec = d_chart_spec withChart,
                                s_image = \<lparr>img_prompt = v_prompt visual, img_alt = v_alt visual,
                                           img_source = Some ''generated''\<rparr>,
                                s_citations = (case d_citations draft of None \<Rightarrow> [] | Some c \<Rightarrow> c)\<rparr>,
                           [SlideCall k, VisualCall k]))))"

text \<open>One iteration of the inner loop: \<^verbatim>\<open>try { ... } catch (slideError) { ... }\<close>.\<close>

definition generate_one ::
  "llm_env \<Rightarrow> string \<Rightarrow> string \<Rightarrow> nat \<Rightarrow> slot \<Rightarrow> slide \<times> llm_call list" where
  "generate_one env docSummary theme k slot =
     (case slide_attempt env docSummary theme k slot of
        (Inl slideError, calls) \<Rightarrow> (placeholder_slide slot, calls)
      | (Inr s, calls) \<Rightarrow> (s, calls))"

text \<open>
  The loops over \<^verbatim>\<open>section.slides\<close> and \<^verbatim>\<open>outline.sections\<close>. The state is the array
  \<^verbatim>\<open>slides\<close>, the counter \<^verbatim>\<open>currentSlide\<close> and the calls made so far. Iterating over
  missing slides raises TypeError and leaves the loop.
\<close>

type_synonym loop_state = "slide list \<times> nat \<times> llm_call list"

fun slots_loop :: "llm_env \<Rightarrow> string \<Rightarrow> string \<Rightarrow> loop_state \<Rightarrow> slot list \<Rightarrow> loop_state" where
  "slots_loop env docSummary theme st [] = st"
| "slots_loop env docSummary theme (slides, currentSlide, calls) (slot # rest) =
     (let (s, made) = generate_one env docSummary theme (currentSlide + 1) slot
      in slots_loop env docSummary theme (slides @ [s], currentSlide + 1, calls @ made) rest)"

fun sections_loop ::
  "llm_env \<Rightarrow> string \<Rightarrow> string \<Rightarrow> loop_state \<Rightarrow> outline_section list \<Rightarrow> js_error option \<times> loop_state" where
  "sections_loop env docSummary theme st [] = (None, st)"
| "sections_loop env docSummary theme st (sec # rest) =
     (case sec_slides sec of
        None \<Rightarrow> (Some TypeError, st)
      | Some slots \<Rightarrow>
          sections_loop env docSummary theme (slots_loop env docSummary theme st slots) rest)"

text \<open>The slots of an outline in reading order: sections in order, slides within each in order.\<close>

definition slots_of_sections :: "outline_section list \<Rightarrow> slot list" where
  "slots_of_sections ss = concat (map (\<lambda>s. case sec_slides s of None \<Rightarrow> [] | Some l \<Rightarrow> l) ss)"

section \<open>Route handler: POST\<close>

text \<open>
  The response: 200 with the deck, 400 with the error text and the offending fields, or
  500 with the error that reached the outer \<^verbatim>\<open>catch\<close>. The export URLs of the 200
  response (built from the clock only) and the wording of the 500 message are left out.
\<close>

datatype response =
  Ok200 deck
| BadRequest400 string "string list"
| ServerError500 js_error

text \<open>\<^verbatim>\<open>validatedData.topic_or_prompt || validatedData.instructions || ''\<close>\<close>

definition topic_of :: "request_data \<Rightarrow> string" where
  "topic_of v =
     (case req_topic_or_prompt v of
        Some t \<Rightarrow> if t \<noteq> [] then t
                  else (case req_instructions v of Some i \<Rightarrow> i | None \<Rightarrow> '''')
      | None \<Rightarrow> (case req_instructions v of Some i \<Rightarrow> i | None \<Rightarrow> ''''))"

text \<open>
  \<^verbatim>\<open>if (validatedData.mode === 'doc_to_deck' && validatedData.assets?.doc_urls)\<close>; an
  empty array is truthy.
\<close>

definition docSummary_of :: "request_data \<Rightarrow> string" where
  "docSummary_of v =
     (if req_mode v = ''doc_to_deck''
      then (case req_assets v of
              None \<Rightarrow> ''''
            | Some a \<Rightarrow> (case doc_urls a of None \<Rightarrow> '''' | Some urls \<Rightarrow> parseDocuments (Some urls)))
      else '''')"

definition POST :: "llm_env \<Rightarrow> js_error + json \<Rightarrow> response \<times> llm_call list" where
  "POST env request_json =
     (case request_json of
        Inl e \<Rightarrow> (ServerError500 e, [])
      | Inr body \<Rightarrow>
     (case GenerateDeckRequestSchema_parse body of
        Inl issues \<Rightarrow> (BadRequest400 ''Invalid request data'' issues, [])
      | Inr validatedData \<Rightarrow>
     (let docSummary = docSummary_of validatedData;
          params = \<lparr>slide_count = req_slide_count validatedData,
                    audience = req_audience validatedData,
                    tone = req_tone validatedData,
                    topic_or_prompt_or_instructions = topic_of validatedData,
                    doc_summary_or_empty = docSummary\<rparr>
      in case promise_race (outline_timed_out env) ''Outline generation timed out after 60 seconds''
                (generateOutline params (outline_reply env params)) of
           Inl e \<Rightarrow> (ServerError500 e, [OutlineCall])
         | Inr outline \<Rightarrow>
     (case route_reconcile (req_slide_count validatedData) outline of
        Inl e \<Rightarrow> (ServerError500 e, [OutlineCall])
      | Inr adjusted \<Rightarrow>
     (case totalSlidesInOutline adjusted of
        Inl e \<Rightarrow> (ServerError500 e, [OutlineCall])
      | Inr totalSlides \<Rightarrow>
     (case out_sections adjusted of
        None \<Rightarrow> (ServerError500 TypeError, [OutlineCall])
      | Some sections \<Rightarrow>
     (case sections_loop env docSummary (req_theme validatedData) ([], 0, []) sections of
        (Some e, (slides, currentSlide, calls)) \<Rightarrow> (ServerError500 e, OutlineCall # calls)
      | (None, (slides, currentSlide, calls)) \<Rightarrow>
          (Ok200 \<lparr>deck_title = out_title adjusted,
                  deck_theme = req_theme validatedData,
                  deck_slides = slides\<rparr>,
           OutlineCall # calls))))))))"

section \<open>Rate limiter (module-level map of the LLM client module)\<close>

text \<open>
  \<^verbatim>\<open>const rateLimitMap = new Map<string, { count: number; resetTime: number }>()\<close> lives
  for the lifetime of the process. It is passed in and returned explicitly; the clock
  \<^verbatim>\<open>Date.now()\<close> is the argument \<open>now\<close> (milliseconds).
\<close>

record rate_entry =
  count :: int
  resetTime :: int

type_synonym rate_map = "string \<rightharpoonup> rate_entry"

definition checkRateLimit :: "string \<Rightarrow> int \<Rightarrow> int \<Rightarrow> int \<Rightarrow> rate_map \<Rightarrow> bool \<times> rate_map" where
  "checkRateLimit ip limit windowMs now m =
     (case m ip of
        None \<Rightarrow> (True, m(ip \<mapsto> \<lparr>count = 1, resetTime = now + windowMs\<rparr>))
      | Some current \<Rightarrow>
          if now > resetTime current
          then (True, m(ip \<mapsto> \<lparr>count = 1, resetTime = now + windowMs\<rparr>))
          else if count current \<ge> limit then (False, m)
          else (True, m(ip \<mapsto> current\<lparr>count := count current + 1\<rparr>)))"

text \<open>The defaults of the source: \<^verbatim>\<open>limit = 20, windowMs = 3600000\<close>.\<close>

definition checkRateLimit_default :: "string \<Rightarrow> int \<Rightarrow> rate_map \<Rightarrow> bool \<times> rate_map" where
  "checkRateLimit_default ip now m = checkRateLimit ip 20 3600000 now m"

section \<open>Sample inputs\<close>

text \<open>
  A request for three slides, and a model answer with five: four in the first section
  and one in the last, so that the excess (two) is more than the last section holds.
\<close>

definition demo_params :: outline_params where
  "demo_params = \<lparr>slide_count = 3, audience = ''general'', tone = ''professional'',
                  topic_or_prompt_or_instructions = ''AI'', doc_summary_or_empty = ''''\<rparr>"

definition demo_slot :: "string \<Rightarrow> string \<Rightarrow> string \<Rightarrow> slot" where
  "demo_slot t l s = \<lparr>slot_title = t, slot_layout = l, slot_section = s\<rparr>"

definition demo_outline :: outline where
  "demo_outline =
     \<lparr>out_title = ''AI'',
      out_sections = Some
        [\<lparr>sec_name = ''Hook'',
          sec_slides = Some [demo_slot ''a1'' ''title_bullets'' ''Hook'',
                             demo_slot ''a2'' ''chart'' ''Hook'',
                             demo_slot ''a3'' ''quote'' ''Hook'',
                             demo_slot ''a4'' ''two_column'' ''Hook'']\<rparr>,
         \<lparr>sec_name = ''Action'',
          sec_slides = Some [demo_slot ''b1'' ''image_full'' ''Action'']\<rparr>]\<rparr>"

definition demo_truncated :: outline where
  "demo_truncated =
     \<lparr>out_title = ''AI'',
      out_sections = Some
        [\<lparr>sec_name = ''Hook'',
          sec_slides = Some [demo_slot ''a1'' ''title_bullets'' ''Hook'',
                             demo_slot ''a2'' ''chart'' ''Hook'',
                             demo_slot ''a3'' ''quote'' ''Hook'',
                             demo_slot ''a4'' ''two_column'' ''Hook'']\<rparr>,
         \<lparr>sec_name = ''Action'', sec_slides = Some []\<rparr>]\<rparr>"

definition demo_padded :: outline where
  "demo_padded =
     \<lparr>out_title = ''AI'',
      out_sections = Some
        [\<lparr>sec_name = ''Hook'',
          sec_slides = Some [demo_slot ''a1'' ''title_bullets'' ''Hook'',
                             demo_slot ''a2'' ''chart'' ''Hook'',
                             demo_slot ''a3'' ''quote'' ''Hook'',
                             demo_slot ''a4'' ''two_column'' ''Hook'']\<rparr>,
         \<lparr>sec_name = ''Action'',
          sec_slides = Some [demo_slot ''b1'' ''image_full'' ''Action'',
                             demo_slot ''Additional Key Point 1'' ''title_bullets'' ''Action'',
                             demo_slot ''Additional Key Point 2'' ''title_bullets'' ''Action'']\<rparr>]\<rparr>"

definition demo_draft :: draft where
  "demo_draft =
     \<lparr>d_title = ''**AI** matters'', d_bullets = [''**85%** adopt AI''], d_notes = '''',
      d_chart_spec = None, d_citations = None,
      d_image = Some \<lparr>img_prompt = ''Diagram'', img_alt = ''Diagram of AI'',
                      img_source = Some ''placeholder''\<rparr>\<rparr>"

definition demo_request :: json where
  "demo_request = JObj [(''mode'', JStr ''quick_prompt''), (''topic_or_prompt'', JStr ''AI''),
                        (''slide_count'', JNum 3)]"

definition demo_env :: llm_env where
  "demo_env =
     \<lparr>outline_reply = (\<lambda>params. Inr demo_outline),
      outline_timed_out = False,
      slide_reply = (\<lambda>k slot facts. Inr demo_draft),
      slide_timed_out = (\<lambda>k. k = 2),
      visual_reply = (\<lambda>k title bullets style. Inl (Error ''model offline'')),
      visual_timed_out = (\<lambda>k. False),
      current_year = 2026\<rparr>"


definition demo_bad_members :: "(string \<times> json) list" where
  "demo_bad_members =
     [(''mode'', JStr ''slides''), (''tone'', JStr ''funny''), (''audience'', JNull),
      (''slide_count'', JNum 51), (''theme'', JStr ''neon'')]"

definition demo_minimal_members :: "(string \<times> json) list" where
  "demo_minimal_members = [(''mode'', JStr ''quick_prompt'')]"

definition demo_json_text :: string where
  "demo_json_text =
     ''  {'' @ [CHR 0x22] @ ''title'' @ [CHR 0x22] @ '': '' @ [CHR 0x22] @ ''Sure, AI''
     @ [CHR 0x22] @ '', '' @ [CHR 0x22] @ ''n'' @ [CHR 0x22] @ '': [1, -2.5e3, true, null]} ''
     @ [CHR 0x0A]"

section \<open>Properties\<close>

subsection \<open>Counting slides\<close>


lemma reduce_slides_length_Inr:
  "reduce_slides_length a ss = Inr t \<Longrightarrow>
     (\<forall>s \<in> set ss. sec_slides s \<noteq> None) \<and> t = a + sum_list (map slides_length_or_0 ss)"
proof (induction a ss rule: reduce_slides_length.induct)
  case (1 acc)
  then show ?case by simp
next
  case (2 acc s ss)
  then obtain l where l: "sec_slides s = Some l"
    by (auto split: option.splits)
  with 2 have "reduce_slides_length (acc + int (length l)) ss = Inr t"
    by simp
  with 2 l show ?case
    by (simp add: slides_length_or_0_def)
qed

lemma reduce_slides_length_total:
  "\<forall>s \<in> set ss. sec_slides s \<noteq> None \<Longrightarrow>
     reduce_slides_length a ss = Inr (a + sum_list (map slides_length_or_0 ss))"
  by (induction ss arbitrary: a) (auto simp: slides_length_or_0_def split: option.splits)

lemma js_slice0_take: "\<exists>k \<le> length xs. js_slice0 xs e = take k xs"
  by (rule exI [of _ "min (length xs) (nat (if e < 0 then max (int (length xs) + e) 0 else min e (int (length xs))))"])
     (simp add: js_slice0_def Let_def)

lemma adjust_to_count_frame:
  assumes "adjust_to_count t n parsed = Inr adjusted" and "t \<noteq> n"
  shows "\<exists>ss l. out_sections parsed = Some ss \<and> ss \<noteq> [] \<and> sec_slides (last ss) = Some l
           \<and> out_title adjusted = out_title parsed
           \<and> out_sections adjusted =
               Some (butlast ss @
                 [(last ss)\<lparr>sec_slides :=
                    Some (if t < n then l @ additional_slots (sec_name (last ss)) (n - t)
                          else js_slice0 l (int (length l) - (t - n)))\<rparr>])"
  using assms
  by (auto simp: adjust_to_count_def lastSection_slides_def set_last_slides_def
           split: if_splits option.splits sum.splits)

subsection \<open>The fallback outline\<close>




text \<open>
  C4. The reconciliation edits the last section only. Whenever the count \<open>t\<close> found by
  \<^verbatim>\<open>generateOutline\<close> (lenient count) or by the route handler (strict count) differs from
  the requested count \<open>n\<close> and the adjustment goes through, the adjusted outline has the
  same sections except the last, the last keeps its name, and its slides are: the
  original slides followed by the \<open>n - t\<close> added 'Additional Key Point' slides when
  \<open>t < n\<close>, a prefix of the original slides when \<open>t > n\<close>. (When the adjustment raises
  instead, it has edited nothing: \<^verbatim>\<open>generateOutline\<close> builds the fallback outline and
  the handler answers 500.)
\<close>

theorem reconciliation_edits_last_section_only:
  "(generateOutline_try params parsed = Inr adjusted
      \<and> totalSlides_lenient parsed = t \<and> t \<noteq> slide_count params \<and> n = slide_count params
    \<or> route_reconcile n parsed = Inr adjusted \<and> totalSlidesInOutline parsed = Inr t \<and> t \<noteq> n)
   \<longrightarrow>
   (\<exists>ss ss' l l'.
      out_sections parsed = Some ss \<and> out_sections adjusted = Some ss'
      \<and> ss \<noteq> [] \<and> length ss' = length ss
      \<and> butlast ss' = butlast ss
      \<and> sec_name (last ss') = sec_name (last ss)
      \<and> sec_slides (last ss) = Some l \<and> sec_slides (last ss') = Some l'
      \<and> (if t < n then l' = l @ additional_slots (sec_name (last ss)) (n - t)
          else (\<exists>k \<le> length l. l' = take k l)))"
proof
  assume "generateOutline_try params parsed = Inr adjusted
      \<and> totalSlides_lenient parsed = t \<and> t \<noteq> slide_count params \<and> n = slide_count params
    \<or> route_reconcile n parsed = Inr adjusted \<and> totalSlidesInOutline parsed = Inr t \<and> t \<noteq> n"
  then have adj: "adjust_to_count t n parsed = Inr adjusted" and ne: "t \<noteq> n"
    by (auto simp: generateOutline_try_def route_reconcile_def split: sum.splits option.splits)
  from adjust_to_count_frame [OF adj ne] obtain ss l where
    f: "out_sections parsed = Some ss" "ss \<noteq> []" "sec_slides (last ss) = Some l"
       "out_sections adjusted =
          Some (butlast ss @
            [(last ss)\<lparr>sec_slides :=
               Some (if t < n then l @ additional_slots (sec_name (last ss)) (n - t)
                     else js_slice0 l (int (length l) - (t - n)))\<rparr>])"
    by blast
  obtain k where k: "k \<le> length l" "js_slice0 l (int (length l) - (t - n)) = take k l"
    using js_slice0_take by blast
  let ?l' = "if t < n then l @ additional_slots (sec_name (last ss)) (n - t)
             else js_slice0 l (int (length l) - (t - n))"
  let ?ss' = "butlast ss @ [(last ss)\<lparr>sec_slides := Some ?l'\<rparr>]"
  have "out_sections parsed = Some ss \<and> out_sections adjusted = Some ?ss'
      \<and> ss \<noteq> [] \<and> length ?ss' = length ss
      \<and> butlast ?ss' = butlast ss
      \<and> sec_name (last ?ss') = sec_name (last ss)
      \<and> sec_slides (last ss) = Some l \<and> sec_slides (last ?ss') = Some ?l'
      \<and> (if t < n then ?l' = l @ additional_slots (sec_name (last ss)) (n - t)
          else (\<exists>k \<le> length l. ?l' = take k l))"
    using f k by auto
  then show "\<exists>ss ss' l l'.
      out_sections parsed = Some ss \<and> out_sections adjusted = Some ss'
      \<and> ss \<noteq> [] \<and> length ss' = length ss
      \<and> butlast ss' = butlast ss
      \<and> sec_name (last ss') = sec_name (last ss)
      \<and> sec_slides (last ss) = Some l \<and> sec_slides (last ss') = Some l'
      \<and> (if t < n then l' = l @ additional_slots (sec_name (last ss)) (n - t)
          else (\<exists>k \<le> length l. l' = take k l))"
    by blast
qed

theorem reconciliation_edits_last_section_only_witness:
  "generateOutline_try demo_params demo_outline = Inr demo_truncated
   \<and> route_reconcile 7 demo_outline = Inr demo_padded
   \<and> (\<exists>ss ss' l l'.
        out_sections demo_outline = Some ss \<and> out_sections demo_truncated = Some ss'
        \<and> ss \<noteq> [] \<and> length ss' = length ss
        \<and> butlast ss' = butlast ss
        \<and> sec_name (last ss') = sec_name (last ss)
        \<and> sec_slides (last ss) = Some l \<and> sec_slides (last ss') = Some l'
        \<and> (if (5::int) < 3 then l' = l @ additional_slots (sec_name (last ss)) (3 - 5)
            else (\<exists>k \<le> length l. l' = take k l)))
   \<and> (\<exists>ss ss' l l'.
        out_sections demo_outline = Some ss \<and> out_sections demo_padded = Some ss'
        \<and> ss \<noteq> [] \<and> length ss' = length ss
        \<and> butlast ss' = butlast ss
        \<and> sec_name (last ss') = sec_name (last ss)
        \<and> sec_slides (last ss) = Some l \<and> sec_slides (last ss') = Some l'
        \<and> (if (5::int) < 7 then l' = l @ additional_slots (sec_name (last ss)) (7 - 5)
            else (\<exists>k \<le> length l. l' = take k l)))"
proof -
  have e1: "generateOutline_try demo_params demo_outline = Inr demo_truncated"
    by code_simp
  have e2: "route_reconcile 7 demo_outline = Inr demo_padded"
    by code_simp
  have lenient: "totalSlides_lenient demo_outline = 5"
    by code_simp
  have strict: "totalSlidesInOutline demo_outline = Inr 5"
    by code_simp
  have n: "slide_count demo_params = 3"
    by (simp add: demo_params_def)
  have h1: "generateOutline_try demo_params demo_outline = Inr demo_truncated
      \<and> totalSlides_lenient demo_outline = 5 \<and> 5 \<noteq> slide_count demo_params
      \<and> 3 = slide_count demo_params
    \<or> route_reconcile 3 demo_outline = Inr demo_truncated
      \<and> totalSlidesInOutline demo_outline = Inr 5 \<and> (5::int) \<noteq> 3"
    using e1 lenient n by simp
  have h2: "generateOutline_try demo_params demo_outline = Inr demo_padded
      \<and> totalSlides_lenient demo_outline = 5 \<and> 5 \<noteq> slide_count demo_params
      \<and> 7 = slide_count demo_params
    \<or> route_reconcile 7 demo_outline = Inr demo_padded
      \<and> totalSlidesInOutline demo_outline = Inr 5 \<and> (5::int) \<noteq> 7"
    using e2 strict by simp
  note c1 = reconciliation_edits_last_section_only
              [of demo_params demo_outline demo_truncated 5 3, THEN mp, OF h1]
  note c2 = reconciliation_edits_last_section_only
              [of demo_params demo_outline demo_padded 5 7, THEN mp, OF h2]
  from e1 e2 c1 c2 show ?thesis
    by (intro conjI)
qed

subsection \<open>Document summary\<close>

lemma split_on_nonempty: "split_on c s \<noteq> []"
  by (induction s) (auto split: list.splits)

lemma split_on_no_sep: "c \<notin> set s \<Longrightarrow> split_on c s = [s]"
  by (induction s) auto

lemma split_on_append: "split_on c (xs @ c # ys) = split_on c xs @ split_on c ys"
  by (induction xs) (auto simp: split_on_nonempty split: list.splits)

lemma last_split_on_append: "last (split_on c (xs @ c # ys)) = last (split_on c ys)"
  by (simp add: split_on_append split_on_nonempty)

lemma split_on_no_sep_inside: "w \<in> set (split_on c s) \<Longrightarrow> c \<notin> set w"
  by (induction s arbitrary: w) (auto split: list.splits if_splits)

lemma url_basename_path:
  "CHR ''/'' \<notin> set name \<Longrightarrow> url_basename (dir @ CHR ''/'' # name) = name"
  by (simp add: url_basename_def last_split_on_append split_on_no_sep)

lemma url_basename_plain: "CHR ''/'' \<notin> set name \<Longrightarrow> url_basename name = name"
  by (simp add: url_basename_def split_on_no_sep)

lemma url_basename_no_slash: "CHR ''/'' \<notin> set (url_basename url)"
  unfolding url_basename_def
  by (rule split_on_no_sep_inside [OF last_in_set]) (rule split_on_nonempty)

lemma remove_extension_ext:
  assumes "CHR ''.'' \<notin> set ext" and "ext \<noteq> []"
  shows "remove_extension (stem @ CHR ''.'' # ext) = stem"
proof -
  have "takeWhile (\<lambda>c. c \<noteq> CHR ''.'') (rev (stem @ CHR ''.'' # ext)) = rev ext"
    using assms by (auto simp: takeWhile_tail)
  with assms show ?thesis
    by (simp add: remove_extension_def Let_def)
qed

lemma remove_extension_no_dot:
  assumes "CHR ''.'' \<notin> set name"
  shows "remove_extension name = name"
proof -
  have "takeWhile (\<lambda>c. c \<noteq> CHR ''.'') (rev name) = rev name"
    using assms by auto
  then have "length (takeWhile (\<lambda>c. c \<noteq> CHR ''.'') (rev name)) = length name"
    by (simp only: length_rev)
  then show ?thesis
    by (simp add: remove_extension_def Let_def)
qed

lemma remove_extension_trailing_dot: "remove_extension (stem @ ''.'') = stem @ ''.''"
  by (simp add: remove_extension_def Let_def)

lemma js_join_Nil_iff: "sep \<noteq> [] \<Longrightarrow> js_join sep xs = [] \<longleftrightarrow> xs = [] \<or> xs = [[]]"
  by (induction sep xs rule: js_join.induct) auto

lemma parseDocuments_empty_iff:
  "parseDocuments docUrls = '''' \<longleftrightarrow> docUrls = None \<or> docUrls = Some []"
  by (auto simp: parseDocuments_def Let_def split: option.splits)

text \<open>
  C8. \<^verbatim>\<open>parseDocuments\<close> never looks at a document: its only input is the list of
  URLs. It returns the empty string exactly when the list is missing or empty; otherwise
  the result is the fixed advisory text around the comma-separated file names, it is the
  same for URL lists with the same basenames, and the file name of
  \<open>dir/stem.ext\<close> is \<open>stem\<close> (the part after the last slash, up to its last dot).
\<close>

theorem parseDocuments_is_stub:
  "(parseDocuments docUrls = '''' \<longleftrightarrow> docUrls = None \<or> docUrls = Some [])
   \<and> (\<forall>urls. docUrls = Some urls \<and> urls \<noteq> [] \<longrightarrow>
          parseDocuments docUrls
            = ''Documents uploaded: '' @ js_join '', '' (map file_name urls) @ advisory_note)
   \<and> (\<forall>urls urls'. map url_basename urls = map url_basename urls' \<longrightarrow>
          parseDocuments (Some urls) = parseDocuments (Some urls'))
   \<and> (\<forall>dir stem ext.
          CHR ''/'' \<notin> set stem \<and> CHR ''/'' \<notin> set ext \<and> CHR ''.'' \<notin> set ext \<and> ext \<noteq> [] \<longrightarrow>
          file_name (dir @ ''/'' @ stem @ ''.'' @ ext) = stem)"
proof (intro conjI allI impI)
  show "parseDocuments docUrls = '''' \<longleftrightarrow> docUrls = None \<or> docUrls = Some []"
    by (rule parseDocuments_empty_iff)
next
  fix urls assume "docUrls = Some urls \<and> urls \<noteq> []"
  then show "parseDocuments docUrls
      = ''Documents uploaded: '' @ js_join '', '' (map file_name urls) @ advisory_note"
    by (simp add: parseDocuments_def)
next
  fix urls urls' :: "string list"
  assume eq: "map url_basename urls = map url_basename urls'"
  then have len: "length urls = length urls'"
    by (rule map_eq_imp_length_eq)
  have "map file_name urls = map (\<lambda>b. remove_extension (if b = [] then ''document'' else b))
                               (map url_basename urls)"
    by (simp add: file_name_def Let_def)
  also have "\<dots> = map file_name urls'"
    by (simp add: eq file_name_def Let_def)
  finally show "parseDocuments (Some urls) = parseDocuments (Some urls')"
    using len by (simp add: parseDocuments_def)
next
  fix dir stem ext :: string
  assume a: "CHR ''/'' \<notin> set stem \<and> CHR ''/'' \<notin> set ext \<and> CHR ''.'' \<notin> set ext \<and> ext \<noteq> []"
  then have "url_basename (dir @ CHR ''/'' # (stem @ CHR ''.'' # ext)) = stem @ CHR ''.'' # ext"
    by (intro url_basename_path) auto
  with a show "file_name (dir @ ''/'' @ stem @ ''.'' @ ext) = stem"
    by (simp add: file_name_def remove_extension_ext)
qed

theorem parseDocuments_is_stub_witness:
  "parseDocuments (Some [''https://files.example.org/docs/report.final.pdf'', ''slides.pptx''])
     = ''Documents uploaded: report.final, slides'' @ advisory_note
   \<and> parseDocuments (Some [''a/x.pdf'']) = parseDocuments (Some [''b/c/x.pdf''])
   \<and> file_name (''https://files.example.org/docs'' @ ''/'' @ ''report.final'' @ ''.'' @ ''pdf'')
       = ''report.final''"
proof -
  note t = parseDocuments_is_stub
    [of "Some [''https://files.example.org/docs/report.final.pdf'', ''slides.pptx'']"]
  have names: "map file_name [''https://files.example.org/docs/report.final.pdf'', ''slides.pptx'']
                 = [''report.final'', ''slides'']"
    by code_simp
  have b: "map url_basename [''a/x.pdf''] = map url_basename [''b/c/x.pdf'']"
    by code_simp
  have c: "CHR ''/'' \<notin> set ''report.final'' \<and> CHR ''/'' \<notin> set ''pdf''
             \<and> CHR ''.'' \<notin> set ''pdf'' \<and> ''pdf'' \<noteq> []"
    by simp
  from t names have "parseDocuments (Some [''https://files.example.org/docs/report.final.pdf'', ''slides.pptx''])
     = ''Documents uploaded: report.final, slides'' @ advisory_note"
    by simp
  moreover from t b have "parseDocuments (Some [''a/x.pdf'']) = parseDocuments (Some [''b/c/x.pdf''])"
    by blast
  moreover from t c have "file_name (''https://files.example.org/docs'' @ ''/'' @ ''report.final'' @ ''.'' @ ''pdf'')
       = ''report.final''"
    by blast
  ultimately show ?thesis by (intro conjI)
qed

subsection \<open>Slide images\<close>

lemma split_on_subset: "w \<in> set (split_on c s) \<Longrightarrow> set w \<subseteq> set s"
proof (induction s arbitrary: w)
  case Nil
  then show ?case by simp
next
  case (Cons a s)
  show ?case
  proof (cases "a = c")
    case True
    with Cons show ?thesis by auto
  next
    case False
    obtain v vs where vs: "split_on c s = v # vs"
      by (cases "split_on c s") (auto simp: split_on_nonempty)
    with False Cons.prems have "w = a # v \<or> w \<in> set vs" by simp
    moreover have "set v \<subseteq> set s" using Cons.IH [of v] vs by simp
    moreover have "w \<in> set vs \<Longrightarrow> set w \<subseteq> set s" using Cons.IH [of w] vs by simp
    ultimately show ?thesis by auto
  qed
qed

lemma keywords_of_length: "length (keywords_of t) \<le> 3"
  unfolding keywords_of_def length_take by (rule min.cobounded2)

lemma keywords_of_member:
  assumes "w \<in> set (keywords_of t)"
  shows "length w > 3 \<and> set w \<subseteq> set t"
proof -
  let ?clean = "filter (\<lambda>c. is_word_char c \<or> is_space c) t"
  from assms have "w \<in> set (filter (\<lambda>word. length word > 3) (split_on CHR '' '' ?clean))"
    unfolding keywords_of_def by (rule in_set_takeD)
  then have w2: "w \<in> set (split_on CHR '' '' ?clean)" and len: "length w > 3"
    unfolding set_filter by blast+
  from split_on_subset [OF w2] have "set w \<subseteq> set ?clean" .
  also have "set ?clean \<subseteq> set t" by (rule filter_is_subset)
  finally show ?thesis using len by (rule conjI [rotated])
qed

lemma js_join_nonempty_words:
  "ws \<noteq> [] \<Longrightarrow> \<forall>w \<in> set ws. w \<noteq> [] \<Longrightarrow> js_join sep ws \<noteq> []"
  by (induction sep ws rule: js_join.induct) auto

lemma encode_char_nonempty: "encode_char c \<noteq> []"
  by (simp add: encode_char_def percent_byte_def Let_def)

lemma encodeURIComponent_nonempty: "s \<noteq> [] \<Longrightarrow> encodeURIComponent s \<noteq> []"
  by (cases s) (simp_all add: encodeURIComponent_def encode_char_nonempty)

lemma generateUnsplashUrl_shape:
  "\<exists>q. generateUnsplashUrl t = unsplash_prefix @ q \<and> q \<noteq> []
       \<and> (q = encodeURIComponent ''business,presentation,professional''
          \<or> (\<exists>ws. q = encodeURIComponent (js_join '','' ws) \<and> ws \<noteq> [] \<and> length ws \<le> 3
                \<and> (\<forall>w \<in> set ws. length w > 3 \<and> set w \<subseteq> set t)))"
proof (cases "js_join '','' (keywords_of t) = []")
  case True
  let ?q = "encodeURIComponent ''business,presentation,professional''"
  have "generateUnsplashUrl t = unsplash_prefix @ ?q"
    using True by (simp add: generateUnsplashUrl_def)
  moreover have "?q \<noteq> []"
    by (rule encodeURIComponent_nonempty) simp
  ultimately show ?thesis by (intro exI [of _ ?q] conjI disjI1 refl)
next
  case False
  then have ne: "keywords_of t \<noteq> []" by auto
  let ?q = "encodeURIComponent (js_join '','' (keywords_of t))"
  have "generateUnsplashUrl t = unsplash_prefix @ ?q"
    using False by (simp add: generateUnsplashUrl_def)
  moreover have "?q \<noteq> []"
    using False by (rule encodeURIComponent_nonempty)
  moreover have "\<exists>ws. ?q = encodeURIComponent (js_join '','' ws) \<and> ws \<noteq> [] \<and> length ws \<le> 3
                \<and> (\<forall>w \<in> set ws. length w > 3 \<and> set w \<subseteq> set t)"
    using ne keywords_of_length [of t] keywords_of_member [of _ t]
    by (intro exI [of _ "keywords_of t"] conjI refl ballI) blast+
  ultimately show ?thesis by (intro exI [of _ ?q] conjI disjI2)
qed

lemma unsplash_prefix_Cons: "unsplash_prefix = CHR ''h'' # tl unsplash_prefix"
  by (simp add: unsplash_prefix_def)

lemma generateUnsplashUrl_hd: "\<exists>r. generateUnsplashUrl t = CHR ''h'' # r"
  unfolding generateUnsplashUrl_def Let_def
  by (subst unsplash_prefix_Cons) simp

lemma generateUnsplashUrl_not_placeholder: "generateUnsplashUrl t \<noteq> ''placeholder''"
  using generateUnsplashUrl_hd [of t] by auto

lemma generateUnsplashUrl_not_empty: "generateUnsplashUrl t \<noteq> []"
  using generateUnsplashUrl_hd [of t] by auto

lemma ensure_image_source:
  "\<exists>img src. d_image (ensure_image slot parsed) = Some img \<and> img_source img = Some src
      \<and> src \<noteq> ''placeholder'' \<and> src \<noteq> []
      \<and> (d_image parsed = None
           \<or> (\<exists>i. d_image parsed = Some i
                  \<and> (img_source i = None \<or> img_source i = Some '''' \<or> img_source i = Some ''placeholder''))
          \<longrightarrow> src = generateUnsplashUrl (slot_title slot))"
proof (cases "d_image parsed")
  case None
  then show ?thesis
    by (simp add: ensure_image_def generateUnsplashUrl_not_placeholder generateUnsplashUrl_not_empty)
next
  case (Some i)
  show ?thesis
  proof (cases "img_source i = None \<or> img_source i = Some '''' \<or> img_source i = Some ''placeholder''")
    case True
    with Some show ?thesis
      by (simp add: ensure_image_def generateUnsplashUrl_not_placeholder generateUnsplashUrl_not_empty)
  next
    case False
    then obtain s where "img_source i = Some s" "s \<noteq> []" "s \<noteq> ''placeholder''"
      by (cases "img_source i") auto
    with Some False show ?thesis
      by (simp add: ensure_image_def)
  qed
qed

text \<open>
  C10. Every result of \<^verbatim>\<open>generateSlide\<close>, from the parsed answer or from the fallback,
  has an image whose source is present, non-empty and different from 'placeholder'.
  In the fallback, and when the parsed answer had no image or an image whose source was
  missing, empty or 'placeholder', the source is the Unsplash URL of the slide title.
  Every such URL is the fixed prefix followed by a non-empty query: the encoded fixed
  keywords, or the encoded comma-joined list of at most three words, each longer than
  three characters and made of characters of the title.
\<close>

theorem generateSlide_image_source:
  "(\<exists>d img src. generateSlide slot year reply = Inr d \<and> d_image d = Some img
       \<and> img_source img = Some src \<and> src \<noteq> ''placeholder'' \<and> src \<noteq> []
       \<and> ((\<exists>e. reply = Inl e) \<longrightarrow>
             src = generateUnsplashUrl (if slot_title slot = [] then ''Key Concepts''
                                        else slot_title slot))
       \<and> (\<forall>parsed. reply = Inr parsed
             \<and> (d_image parsed = None
                \<or> (\<exists>i. d_image parsed = Some i
                      \<and> (img_source i = None \<or> img_source i = Some ''''
                         \<or> img_source i = Some ''placeholder'')))
            \<longrightarrow> src = generateUnsplashUrl (slot_title slot)))
   \<and> (\<forall>t. \<exists>q. generateUnsplashUrl t = ''https://source.unsplash.com/800x600/?'' @ q \<and> q \<noteq> []
          \<and> (q = encodeURIComponent ''business,presentation,professional''
             \<or> (\<exists>ws. q = encodeURIComponent (js_join '','' ws) \<and> ws \<noteq> [] \<and> length ws \<le> 3
                   \<and> (\<forall>w \<in> set ws. length w > 3 \<and> set w \<subseteq> set t))))"
proof (intro conjI allI)
  show "\<exists>d img src. generateSlide slot year reply = Inr d \<and> d_image d = Some img
       \<and> img_source img = Some src \<and> src \<noteq> ''placeholder'' \<and> src \<noteq> []
       \<and> ((\<exists>e. reply = Inl e) \<longrightarrow>
             src = generateUnsplashUrl (if slot_title slot = [] then ''Key Concepts''
                                        else slot_title slot))
       \<and> (\<forall>parsed. reply = Inr parsed
             \<and> (d_image parsed = None
                \<or> (\<exists>i. d_image parsed = Some i
                      \<and> (img_source i = None \<or> img_source i = Some ''''
                         \<or> img_source i = Some ''placeholder'')))
            \<longrightarrow> src = generateUnsplashUrl (slot_title slot))"
  proof (cases reply)
    case (Inl e)
    then show ?thesis
      by (simp add: generateSlide_def fallbackSlide_def Let_def
            generateUnsplashUrl_not_placeholder generateUnsplashUrl_not_empty)
  next
    case (Inr parsed)
    from ensure_image_source [of slot parsed] obtain img src where
      i: "d_image (ensure_image slot parsed) = Some img" "img_source img = Some src"
         "src \<noteq> ''placeholder''" "src \<noteq> []"
         "d_image parsed = None
           \<or> (\<exists>i. d_image parsed = Some i
                  \<and> (img_source i = None \<or> img_source i = Some '''' \<or> img_source i = Some ''placeholder''))
          \<longrightarrow> src = generateUnsplashUrl (slot_title slot)"
      by (elim exE conjE) (rule that)
    have g: "generateSlide slot year reply = Inr (ensure_image slot parsed)"
      using Inr by (simp add: generateSlide_def)
    show ?thesis
      apply (rule exI [of _ "ensure_image slot parsed"])
      apply (rule exI [of _ img])
      apply (rule exI [of _ src])
      using g i Inr apply simp
      done
  qed
next
  fix t
  show "\<exists>q. generateUnsplashUrl t = ''https://source.unsplash.com/800x600/?'' @ q \<and> q \<noteq> []
          \<and> (q = encodeURIComponent ''business,presentation,professional''
             \<or> (\<exists>ws. q = encodeURIComponent (js_join '','' ws) \<and> ws \<noteq> [] \<and> length ws \<le> 3
                   \<and> (\<forall>w \<in> set ws. length w > 3 \<and> set w \<subseteq> set t)))"
    using generateUnsplashUrl_shape [of t] unfolding unsplash_prefix_def .
qed

theorem generateSlide_image_source_witness:
  "(\<exists>d img. generateSlide (demo_slot ''Why AI matters'' ''chart'' ''Hook'') 2026 (Inr demo_draft) = Inr d
       \<and> d_image d = Some img
       \<and> img_source img = Some ''https://source.unsplash.com/800x600/?matters'')
   \<and> (\<exists>q. generateUnsplashUrl ''Why AI matters'' = ''https://source.unsplash.com/800x600/?'' @ q
          \<and> q \<noteq> [])"
proof -
  let ?slot = "demo_slot ''Why AI matters'' ''chart'' ''Hook''"
  note t = generateSlide_image_source [of ?slot 2026 "Inr demo_draft"]
  from t [THEN conjunct1] obtain d img src where
    r: "generateSlide ?slot 2026 (Inr demo_draft) = Inr d" "d_image d = Some img"
       "img_source img = Some src"
    and repl: "\<forall>parsed. Inr demo_draft = (Inr parsed :: js_error + draft)
             \<and> (d_image parsed = None
                \<or> (\<exists>i. d_image parsed = Some i
                      \<and> (img_source i = None \<or> img_source i = Some ''''
                         \<or> img_source i = Some ''placeholder'')))
            \<longrightarrow> src = generateUnsplashUrl (slot_title ?slot)"
    by (elim exE conjE) (rule that)
  have hyp: "Inr demo_draft = (Inr demo_draft :: js_error + draft)
             \<and> (d_image demo_draft = None
                \<or> (\<exists>i. d_image demo_draft = Some i
                      \<and> (img_source i = None \<or> img_source i = Some ''''
                         \<or> img_source i = Some ''placeholder'')))"
    by (simp add: demo_draft_def)
  from repl [rule_format, OF hyp] have "src = generateUnsplashUrl (slot_title ?slot)" .
  also have "\<dots> = ''https://source.unsplash.com/800x600/?matters''"
    by code_simp
  finally have src: "src = ''https://source.unsplash.com/800x600/?matters''" .
  from r src have a: "\<exists>d img. generateSlide ?slot 2026 (Inr demo_draft) = Inr d
       \<and> d_image d = Some img
       \<and> img_source img = Some ''https://source.unsplash.com/800x600/?matters''"
    by (intro exI [of _ d] exI [of _ img]) simp
  from t [THEN conjunct2, rule_format, of "''Why AI matters''"]
  have b: "\<exists>q. generateUnsplashUrl ''Why AI matters'' = ''https://source.unsplash.com/800x600/?'' @ q
          \<and> q \<noteq> []"
    by (elim exE conjE) (intro exI conjI)
  from a b show ?thesis by (rule conjI)
qed

subsection \<open>The slide loop\<close>





lemma slots_loop_eq:
  "slots_loop env ds th (slides, cur, calls) slots =
     (slides @ map (\<lambda>(k, slot). fst (generate_one env ds th k slot)) (enumerate (cur + 1) slots),
      cur + length slots,
      calls @ concat (map (\<lambda>(k, slot). snd (generate_one env ds th k slot)) (enumerate (cur + 1) slots)))"
proof (induction slots arbitrary: slides cur calls)
  case Nil
  then show ?case by simp
next
  case (Cons slot rest)
  show ?case
    by (simp add: Cons.IH split_beta Let_def)
qed

lemma sections_loop_eq:
  assumes "\<forall>s \<in> set ss. sec_slides s \<noteq> None"
  shows "sections_loop env ds th (slides, cur, calls) ss =
     (None,
      slides @ map (\<lambda>(k, slot). fst (generate_one env ds th k slot))
                 (enumerate (cur + 1) (slots_of_sections ss)),
      cur + length (slots_of_sections ss),
      calls @ concat (map (\<lambda>(k, slot). snd (generate_one env ds th k slot))
                        (enumerate (cur + 1) (slots_of_sections ss))))"
  using assms
proof (induction ss arbitrary: slides cur calls)
  case Nil
  then show ?case by (simp add: slots_of_sections_def)
next
  case (Cons sec rest)
  then obtain l where l: "sec_slides sec = Some l" by auto
  have rest: "\<forall>s \<in> set rest. sec_slides s \<noteq> None" using Cons.prems by simp
  have sl: "slots_of_sections (sec # rest) = l @ slots_of_sections rest"
    using l by (simp add: slots_of_sections_def)
  show ?case
    unfolding sl
    by (simp add: l slots_loop_eq Cons.IH [OF rest] enumerate_append_eq add.commute add.left_commute)
qed



subsection \<open>Request validation\<close>

lemma issues_of_simps:
  "issues_of (Inl xs) = xs" "issues_of (Inr v) = []"
  by (simp_all add: issues_of_def)

lemma zod_enum_bad:
  "\<forall>s \<in> set options. v \<noteq> Some (JStr s) \<Longrightarrow> zod_enum path options v = Inl [path]"
  by (auto simp: zod_enum_def split: option.splits json.splits)

lemma zod_enum_Inr: "zod_enum path options v = Inr s \<Longrightarrow> s \<in> set options"
  by (auto simp: zod_enum_def split: option.splits json.splits if_splits)

lemma zod_number_bad:
  "n < lo \<or> hi < n \<Longrightarrow> zod_number_min_max path lo hi (Some (JNum n)) = Inl [path]"
  by (auto simp: zod_number_min_max_def)

lemma zod_number_Inr: "zod_number_min_max path lo hi v = Inr n \<Longrightarrow> lo \<le> n \<and> n \<le> hi"
  by (auto simp: zod_number_min_max_def split: option.splits json.splits if_splits)

lemma zod_default_Some: "zod_default d inner (Some x) = inner (Some x)"
  by (simp add: zod_default_def)

lemma zod_default_None: "zod_default d inner None = Inr d"
  by (simp add: zod_default_def)

lemma if_issue:
  "x \<in> set issues \<Longrightarrow>
     \<exists>flds. (if issues = [] then Inr v else Inl issues) = Inl flds \<and> x \<in> set flds"
  by auto

lemma parse_issue_member:
  assumes "f \<in> set (issues_of (zod_enum ''mode'' mode_enum (map_of kv ''mode'')))
         \<or> f \<in> set (issues_of (zod_default ''professional'' (zod_enum ''tone'' tone_enum) (map_of kv ''tone'')))
         \<or> f \<in> set (issues_of (zod_default ''general'' (zod_enum ''audience'' audience_enum) (map_of kv ''audience'')))
         \<or> f \<in> set (issues_of (zod_default 10 (zod_number_min_max ''slide_count'' 3 50) (map_of kv ''slide_count'')))
         \<or> f \<in> set (issues_of (zod_default ''deep_space'' (zod_enum ''theme'' theme_enum) (map_of kv ''theme'')))"
  shows "\<exists>flds. GenerateDeckRequestSchema_parse (JObj kv) = Inl flds \<and> f \<in> set flds"
  unfolding GenerateDeckRequestSchema_parse_def Let_def json.case
  by (rule if_issue) (use assms in auto)

lemma POST_bad_request:
  "GenerateDeckRequestSchema_parse body = Inl flds \<Longrightarrow>
     POST env (Inr body) = (BadRequest400 ''Invalid request data'' flds, [])"
  by (simp add: POST_def)

lemma parse_rejected:
  assumes "f \<in> set (issues_of (zod_enum ''mode'' mode_enum (map_of kv ''mode'')))
         \<or> f \<in> set (issues_of (zod_default ''professional'' (zod_enum ''tone'' tone_enum) (map_of kv ''tone'')))
         \<or> f \<in> set (issues_of (zod_default ''general'' (zod_enum ''audience'' audience_enum) (map_of kv ''audience'')))
         \<or> f \<in> set (issues_of (zod_default 10 (zod_number_min_max ''slide_count'' 3 50) (map_of kv ''slide_count'')))
         \<or> f \<in> set (issues_of (zod_default ''deep_space'' (zod_enum ''theme'' theme_enum) (map_of kv ''theme'')))"
  shows "\<exists>flds. POST env (Inr (JObj kv)) = (BadRequest400 ''Invalid request data'' flds, [])
           \<and> f \<in> set flds"
proof -
  from parse_issue_member [OF assms] obtain flds where
    "GenerateDeckRequestSchema_parse (JObj kv) = Inl flds" "f \<in> set flds"
    by blast
  then show ?thesis
    by (intro exI [of _ flds]) (simp add: POST_bad_request)
qed

lemma zod_default_enum_ok:
  "issues_of (zod_default d (zod_enum path options) v) = [] \<Longrightarrow>
     projr (zod_default d (zod_enum path options) v) \<in> insert d (set options)
     \<and> (v = None \<longrightarrow> projr (zod_default d (zod_enum path options) v) = d)"
  by (auto simp: zod_default_def zod_enum_def issues_of_def split: option.splits json.splits if_splits)

lemma zod_enum_ok:
  "issues_of (zod_enum path options v) = [] \<Longrightarrow> projr (zod_enum path options v) \<in> set options"
  by (auto simp: zod_enum_def issues_of_def split: option.splits json.splits if_splits)

lemma zod_default_number_ok:
  "issues_of (zod_default d (zod_number_min_max path lo hi) v) = [] \<Longrightarrow>
     (v = None \<longrightarrow> projr (zod_default d (zod_number_min_max path lo hi) v) = d)
     \<and> (v \<noteq> None \<longrightarrow> lo \<le> projr (zod_default d (zod_number_min_max path lo hi) v)
                    \<and> projr (zod_default d (zod_number_min_max path lo hi) v) \<le> hi)"
  by (auto simp: zod_default_def zod_number_min_max_def issues_of_def
           split: option.splits json.splits if_splits)

lemma parse_accepted:
  assumes "GenerateDeckRequestSchema_parse (JObj kv) = Inr v"
  shows "req_mode v = projr (zod_enum ''mode'' mode_enum (map_of kv ''mode''))
       \<and> issues_of (zod_enum ''mode'' mode_enum (map_of kv ''mode'')) = []
       \<and> req_tone v = projr (zod_default ''professional'' (zod_enum ''tone'' tone_enum) (map_of kv ''tone''))
       \<and> issues_of (zod_default ''professional'' (zod_enum ''tone'' tone_enum) (map_of kv ''tone'')) = []
       \<and> req_audience v = projr (zod_default ''general'' (zod_enum ''audience'' audience_enum) (map_of kv ''audience''))
       \<and> issues_of (zod_default ''general'' (zod_enum ''audience'' audience_enum) (map_of kv ''audience'')) = []
       \<and> req_slide_count v = projr (zod_default 10 (zod_number_min_max ''slide_count'' 3 50) (map_of kv ''slide_count''))
       \<and> issues_of (zod_default 10 (zod_number_min_max ''slide_count'' 3 50) (map_of kv ''slide_count'')) = []
       \<and> req_theme v = projr (zod_default ''deep_space'' (zod_enum ''theme'' theme_enum) (map_of kv ''theme''))
       \<and> issues_of (zod_default ''deep_space'' (zod_enum ''theme'' theme_enum) (map_of kv ''theme'')) = []"
  using assms
  unfolding GenerateDeckRequestSchema_parse_def Let_def json.case
  by (auto split: if_splits)

text \<open>
  C9. A request whose \<open>slide_count\<close> is a number below 3 or above 50, whose \<open>mode\<close> is
  missing or not one of the declared modes, or whose \<open>tone\<close>, \<open>audience\<close> or \<open>theme\<close>
  is present but not one of the declared values, is answered with status 400, the error
  text 'Invalid request data' and a field list that names the offending member; no model
  call is made. When validation succeeds, omitted \<open>slide_count\<close>, \<open>tone\<close>, \<open>audience\<close>
  and \<open>theme\<close> have become 10, 'professional', 'general' and 'deep_space', and the
  validated values lie in the declared range and enumerations.
\<close>

theorem POST_rejects_invalid_request:
  "((\<exists>n. map_of kv ''slide_count'' = Some (JNum n) \<and> (n < 3 \<or> 50 < n)) \<longrightarrow>
      (\<exists>flds. POST env (Inr (JObj kv)) = (BadRequest400 ''Invalid request data'' flds, [])
         \<and> ''slide_count'' \<in> set flds))
   \<and> ((\<forall>s \<in> set mode_enum. map_of kv ''mode'' \<noteq> Some (JStr s)) \<longrightarrow>
      (\<exists>flds. POST env (Inr (JObj kv)) = (BadRequest400 ''Invalid request data'' flds, [])
         \<and> ''mode'' \<in> set flds))
   \<and> ((\<exists>x. map_of kv ''tone'' = Some x \<and> (\<forall>s \<in> set tone_enum. x \<noteq> JStr s)) \<longrightarrow>
      (\<exists>flds. POST env (Inr (JObj kv)) = (BadRequest400 ''Invalid request data'' flds, [])
         \<and> ''tone'' \<in> set flds))
   \<and> ((\<exists>x. map_of kv ''audience'' = Some x \<and> (\<forall>s \<in> set audience_enum. x \<noteq> JStr s)) \<longrightarrow>
      (\<exists>flds. POST env (Inr (JObj kv)) = (BadRequest400 ''Invalid request data'' flds, [])
         \<and> ''audience'' \<in> set flds))
   \<and> ((\<exists>x. map_of kv ''theme'' = Some x \<and> (\<forall>s \<in> set theme_enum. x \<noteq> JStr s)) \<longrightarrow>
      (\<exists>flds. POST env (Inr (JObj kv)) = (BadRequest400 ''Invalid request data'' flds, [])
         \<and> ''theme'' \<in> set flds))
   \<and> (\<forall>v. GenerateDeckRequestSchema_parse (JObj kv) = Inr v \<longrightarrow>
         (map_of kv ''slide_count'' = None \<longrightarrow> req_slide_count v = 10)
         \<and> (map_of kv ''tone'' = None \<longrightarrow> req_tone v = ''professional'')
         \<and> (map_of kv ''audience'' = None \<longrightarrow> req_audience v = ''general'')
         \<and> (map_of kv ''theme'' = None \<longrightarrow> req_theme v = ''deep_space'')
         \<and> 3 \<le> req_slide_count v \<and> req_slide_count v \<le> 50
         \<and> req_mode v \<in> set mode_enum \<and> req_tone v \<in> set tone_enum
         \<and> req_audience v \<in> set audience_enum \<and> req_theme v \<in> set theme_enum)"
proof (intro conjI allI impI)
  assume "\<exists>n. map_of kv ''slide_count'' = Some (JNum n) \<and> (n < 3 \<or> 50 < n)"
  then have "''slide_count'' \<in> set (issues_of
      (zod_default 10 (zod_number_min_max ''slide_count'' 3 50) (map_of kv ''slide_count'')))"
    by (auto simp: zod_default_Some zod_number_bad issues_of_simps)
  then show "\<exists>flds. POST env (Inr (JObj kv)) = (BadRequest400 ''Invalid request data'' flds, [])
         \<and> ''slide_count'' \<in> set flds"
    by (intro parse_rejected) simp
next
  assume "\<forall>s \<in> set mode_enum. map_of kv ''mode'' \<noteq> Some (JStr s)"
  then have "''mode'' \<in> set (issues_of (zod_enum ''mode'' mode_enum (map_of kv ''mode'')))"
    by (simp add: zod_enum_bad issues_of_simps)
  then show "\<exists>flds. POST env (Inr (JObj kv)) = (BadRequest400 ''Invalid request data'' flds, [])
         \<and> ''mode'' \<in> set flds"
    by (intro parse_rejected) simp
next
  assume "\<exists>x. map_of kv ''tone'' = Some x \<and> (\<forall>s \<in> set tone_enum. x \<noteq> JStr s)"
  then have "''tone'' \<in> set (issues_of
      (zod_default ''professional'' (zod_enum ''tone'' tone_enum) (map_of kv ''tone'')))"
    by (auto simp: zod_default_Some zod_enum_bad issues_of_simps)
  then show "\<exists>flds. POST env (Inr (JObj kv)) = (BadRequest400 ''Invalid request data'' flds, [])
         \<and> ''tone'' \<in> set flds"
    by (intro parse_rejected) simp
next
  assume "\<exists>x. map_of kv ''audience'' = Some x \<and> (\<forall>s \<in> set audience_enum. x \<noteq> JStr s)"
  then have "''audience'' \<in> set (issues_of
      (zod_default ''general'' (zod_enum ''audience'' audience_enum) (map_of kv ''audience'')))"
    by (auto simp: zod_default_Some zod_enum_bad issues_of_simps)
  then show "\<exists>flds. POST env (Inr (JObj kv)) = (BadRequest400 ''Invalid request data'' flds, [])
         \<and> ''audience'' \<in> set flds"
    by (intro parse_rejected) simp
next
  assume "\<exists>x. map_of kv ''theme'' = Some x \<and> (\<forall>s \<in> set theme_enum. x \<noteq> JStr s)"
  then have "''theme'' \<in> set (issues_of
      (zod_default ''deep_space'' (zod_enum ''theme'' theme_enum) (map_of kv ''theme'')))"
    by (auto simp: zod_default_Some zod_enum_bad issues_of_simps)
  then show "\<exists>flds. POST env (Inr (JObj kv)) = (BadRequest400 ''Invalid request data'' flds, [])
         \<and> ''theme'' \<in> set flds"
    by (intro parse_rejected) simp
next
  fix v assume ok: "GenerateDeckRequestSchema_parse (JObj kv) = Inr v"
  note a = parse_accepted [OF ok]
  from a have m: "req_mode v = projr (zod_enum ''mode'' mode_enum (map_of kv ''mode''))"
    and mi: "issues_of (zod_enum ''mode'' mode_enum (map_of kv ''mode'')) = []"
    and t: "req_tone v = projr (zod_default ''professional'' (zod_enum ''tone'' tone_enum) (map_of kv ''tone''))"
    and ti: "issues_of (zod_default ''professional'' (zod_enum ''tone'' tone_enum) (map_of kv ''tone'')) = []"
    and au: "req_audience v = projr (zod_default ''general'' (zod_enum ''audience'' audience_enum) (map_of kv ''audience''))"
    and aui: "issues_of (zod_default ''general'' (zod_enum ''audience'' audience_enum) (map_of kv ''audience'')) = []"
    and n: "req_slide_count v = projr (zod_default 10 (zod_number_min_max ''slide_count'' 3 50) (map_of kv ''slide_count''))"
    and ni: "issues_of (zod_default 10 (zod_number_min_max ''slide_count'' 3 50) (map_of kv ''slide_count'')) = []"
    and th: "req_theme v = projr (zod_default ''deep_space'' (zod_enum ''theme'' theme_enum) (map_of kv ''theme''))"
    and thi: "issues_of (zod_default ''deep_space'' (zod_enum ''theme'' theme_enum) (map_of kv ''theme'')) = []"
    by blast+
  note tn = zod_default_enum_ok [OF ti] and an = zod_default_enum_ok [OF aui]
    and hn = zod_default_enum_ok [OF thi] and nn = zod_default_number_ok [OF ni]
  { assume "map_of kv ''slide_count'' = None"
    with nn n show "req_slide_count v = 10" by simp }
  { assume "map_of kv ''tone'' = None"
    with tn t show "req_tone v = ''professional''" by simp }
  { assume "map_of kv ''audience'' = None"
    with an au show "req_audience v = ''general''" by simp }
  { assume "map_of kv ''theme'' = None"
    with hn th show "req_theme v = ''deep_space''" by simp }
  from nn n show "3 \<le> req_slide_count v"
    by (cases "map_of kv ''slide_count''") simp_all
  from nn n show "req_slide_count v \<le> 50"
    by (cases "map_of kv ''slide_count''") simp_all
  from zod_enum_ok [OF mi] m show "req_mode v \<in> set mode_enum" by simp
  from tn t show "req_tone v \<in> set tone_enum" by (auto simp: tone_enum_def)
  from an au show "req_audience v \<in> set audience_enum" by (auto simp: audience_enum_def)
  from hn th show "req_theme v \<in> set theme_enum" by (auto simp: theme_enum_def)
qed

theorem POST_rejects_invalid_request_witness:
  "(\<exists>flds. POST demo_env (Inr (JObj demo_bad_members))
             = (BadRequest400 ''Invalid request data'' flds, []) \<and> ''slide_count'' \<in> set flds)
   \<and> (\<exists>flds. POST demo_env (Inr (JObj demo_bad_members))
             = (BadRequest400 ''Invalid request data'' flds, []) \<and> ''mode'' \<in> set flds)
   \<and> (\<exists>flds. POST demo_env (Inr (JObj demo_bad_members))
             = (BadRequest400 ''Invalid request data'' flds, []) \<and> ''tone'' \<in> set flds)
   \<and> (\<exists>flds. POST demo_env (Inr (JObj demo_bad_members))
             = (BadRequest400 ''Invalid request data'' flds, []) \<and> ''audience'' \<in> set flds)
   \<and> (\<exists>flds. POST demo_env (Inr (JObj demo_bad_members))
             = (BadRequest400 ''Invalid request data'' flds, []) \<and> ''theme'' \<in> set flds)
   \<and> (\<exists>v. GenerateDeckRequestSchema_parse (JObj demo_minimal_members) = Inr v
          \<and> req_slide_count v = 10 \<and> req_tone v = ''professional''
          \<and> req_audience v = ''general'' \<and> req_theme v = ''deep_space'')"
proof -
  note bad = POST_rejects_invalid_request [of demo_bad_members demo_env]
  note good = POST_rejects_invalid_request [of demo_minimal_members demo_env]
  have n: "\<exists>n. map_of demo_bad_members ''slide_count'' = Some (JNum n) \<and> (n < 3 \<or> 50 < n)"
    by (simp add: demo_bad_members_def)
  have m: "\<forall>s \<in> set mode_enum. map_of demo_bad_members ''mode'' \<noteq> Some (JStr s)"
    by (simp add: demo_bad_members_def mode_enum_def)
  have t: "\<exists>x. map_of demo_bad_members ''tone'' = Some x \<and> (\<forall>s \<in> set tone_enum. x \<noteq> JStr s)"
    by (simp add: demo_bad_members_def tone_enum_def)
  have a: "\<exists>x. map_of demo_bad_members ''audience'' = Some x \<and> (\<forall>s \<in> set audience_enum. x \<noteq> JStr s)"
    by (simp add: demo_bad_members_def audience_enum_def)
  have h: "\<exists>x. map_of demo_bad_members ''theme'' = Some x \<and> (\<forall>s \<in> set theme_enum. x \<noteq> JStr s)"
    by (simp add: demo_bad_members_def theme_enum_def)
  obtain v where v: "GenerateDeckRequestSchema_parse (JObj demo_minimal_members) = Inr v"
    by (cases "GenerateDeckRequestSchema_parse (JObj demo_minimal_members)")
       (simp_all add: GenerateDeckRequestSchema_parse_def demo_minimal_members_def Let_def
          zod_enum_def zod_default_def zod_optional_def issues_of_def mode_enum_def)
  have none: "map_of demo_minimal_members ''slide_count'' = None"
       "map_of demo_minimal_members ''tone'' = None"
       "map_of demo_minimal_members ''audience'' = None"
       "map_of demo_minimal_members ''theme'' = None"
    by (simp_all add: demo_minimal_members_def)
  from good v none have d: "req_slide_count v = 10 \<and> req_tone v = ''professional''
          \<and> req_audience v = ''general'' \<and> req_theme v = ''deep_space''"
    by blast
  from bad n have c1: "\<exists>flds. POST demo_env (Inr (JObj demo_bad_members))
             = (BadRequest400 ''Invalid request data'' flds, []) \<and> ''slide_count'' \<in> set flds"
    by blast
  from bad m have c2: "\<exists>flds. POST demo_env (Inr (JObj demo_bad_members))
             = (BadRequest400 ''Invalid request data'' flds, []) \<and> ''mode'' \<in> set flds"
    by blast
  from bad t have c3: "\<exists>flds. POST demo_env (Inr (JObj demo_bad_members))
             = (BadRequest400 ''Invalid request data'' flds, []) \<and> ''tone'' \<in> set flds"
    by blast
  from bad a have c4: "\<exists>flds. POST demo_env (Inr (JObj demo_bad_members))
             = (BadRequest400 ''Invalid request data'' flds, []) \<and> ''audience'' \<in> set flds"
    by blast
  from bad h have c5: "\<exists>flds. POST demo_env (Inr (JObj demo_bad_members))
             = (BadRequest400 ''Invalid request data'' flds, []) \<and> ''theme'' \<in> set flds"
    by blast
  from v d have c6: "\<exists>v. GenerateDeckRequestSchema_parse (JObj demo_minimal_members) = Inr v
          \<and> req_slide_count v = 10 \<and> req_tone v = ''professional''
          \<and> req_audience v = ''general'' \<and> req_theme v = ''deep_space''"
    by (intro exI [of _ v] conjI) simp_all
  from c1 c2 c3 c4 c5 c6 show ?thesis by (intro conjI)
qed

subsection \<open>The exact slide count\<close>

lemma strict_total_last:
  assumes "ss \<noteq> []" and "\<forall>s \<in> set ss. sec_slides s \<noteq> None" and "sec_slides (last ss) = Some l"
  shows "reduce_slides_length 0 (butlast ss @ [(last ss)\<lparr>sec_slides := Some l'\<rparr>])
           = Inr (sum_list (map slides_length_or_0 ss) - int (length l) + int (length l'))"
proof -
  have split: "ss = butlast ss @ [last ss]" using assms(1) by simp
  have "sum_list (map slides_length_or_0 ss)
          = sum_list (map slides_length_or_0 (butlast ss)) + slides_length_or_0 (last ss)"
    by (subst split) simp
  then have total: "sum_list (map slides_length_or_0 ss)
          = sum_list (map slides_length_or_0 (butlast ss)) + int (length l)"
    by (simp add: slides_length_or_0_def assms(3))
  have present: "\<forall>s \<in> set (butlast ss @ [(last ss)\<lparr>sec_slides := Some l'\<rparr>]). sec_slides s \<noteq> None"
    using assms(2) by (auto dest: in_set_butlastD)
  show ?thesis
    unfolding reduce_slides_length_total [OF present]
    by (simp add: total slides_length_or_0_def)
qed

lemma route_reconcile_exact:
  assumes rec: "route_reconcile n outline = Inr adjusted"
    and tot: "totalSlidesInOutline outline = Inr t"
    and fits: "n < t \<Longrightarrow> \<exists>ss l. out_sections outline = Some ss \<and> sec_slides (last ss) = Some l
                                \<and> t - n \<le> int (length l)"
  shows "totalSlidesInOutline adjusted = Inr n"
proof (cases "t = n")
  case True
  with rec tot show ?thesis
    by (simp add: route_reconcile_def adjust_to_count_def)
next
  case False
  from rec tot have adj: "adjust_to_count t n outline = Inr adjusted"
    by (simp add: route_reconcile_def)
  from adjust_to_count_frame [OF adj False] obtain ss l where
    f: "out_sections outline = Some ss" "ss \<noteq> []" "sec_slides (last ss) = Some l"
       "out_sections adjusted =
          Some (butlast ss @
            [(last ss)\<lparr>sec_slides :=
               Some (if t < n then l @ additional_slots (sec_name (last ss)) (n - t)
                     else js_slice0 l (int (length l) - (t - n)))\<rparr>])"
    by blast
  from tot f(1) have red: "reduce_slides_length 0 ss = Inr t"
    by (simp add: totalSlidesInOutline_def)
  from reduce_slides_length_Inr [OF red] have
    present: "\<forall>s \<in> set ss. sec_slides s \<noteq> None" and t: "t = sum_list (map slides_length_or_0 ss)"
    by simp_all
  let ?l' = "if t < n then l @ additional_slots (sec_name (last ss)) (n - t)
             else js_slice0 l (int (length l) - (t - n))"
  have len: "int (length ?l') = int (length l) + (n - t)"
  proof (cases "t < n")
    case True
    then show ?thesis by (simp add: additional_slots_def)
  next
    case False
    with \<open>t \<noteq> n\<close> have "n < t" by simp
    from fits [OF this] f(1,3) have "t - n \<le> int (length l)" by auto
    with \<open>n < t\<close> show ?thesis by (simp add: js_slice0_def Let_def)
  qed
  have "totalSlidesInOutline adjusted
          = Inr (sum_list (map slides_length_or_0 ss) - int (length l) + int (length ?l'))"
    unfolding totalSlidesInOutline_def f(4) option.case
    by (rule strict_total_last [OF f(2) present f(3)])
  with len t show ?thesis by simp
qed

lemma length_slots_of_sections:
  "\<forall>s \<in> set ss. sec_slides s \<noteq> None \<Longrightarrow>
     int (length (slots_of_sections ss)) = sum_list (map slides_length_or_0 ss)"
  by (induction ss) (auto simp: slots_of_sections_def slides_length_or_0_def)

lemma POST_ok_trace:
  assumes "POST env (Inr body) = (Ok200 d, calls)"
  shows "\<exists>v outline adjusted t.
           GenerateDeckRequestSchema_parse body = Inr v
           \<and> generateOutline
                 \<lparr>slide_count = req_slide_count v, audience = req_audience v, tone = req_tone v,
                  topic_or_prompt_or_instructions = topic_of v,
                  doc_summary_or_empty = docSummary_of v\<rparr>
                 (outline_reply env
                    \<lparr>slide_count = req_slide_count v, audience = req_audience v, tone = req_tone v,
                     topic_or_prompt_or_instructions = topic_of v,
                     doc_summary_or_empty = docSummary_of v\<rparr>) = Inr outline
           \<and> route_reconcile (req_slide_count v) outline = Inr adjusted
           \<and> totalSlidesInOutline adjusted = Inr t
           \<and> int (length (deck_slides d)) = t"
proof -
  let ?params = "\<lambda>v. \<lparr>slide_count = req_slide_count v, audience = req_audience v, tone = req_tone v,
                  topic_or_prompt_or_instructions = topic_of v,
                  doc_summary_or_empty = docSummary_of v\<rparr>"
  from assms obtain v where v: "GenerateDeckRequestSchema_parse body = Inr v"
    by (cases "GenerateDeckRequestSchema_parse body") (simp_all add: POST_def)
  from assms v obtain outline where
    o: "promise_race (outline_timed_out env) ''Outline generation timed out after 60 seconds''
          (generateOutline (?params v) (outline_reply env (?params v))) = Inr outline"
    by (cases "promise_race (outline_timed_out env) ''Outline generation timed out after 60 seconds''
          (generateOutline (?params v) (outline_reply env (?params v)))")
       (simp_all add: POST_def Let_def)
  then have g: "generateOutline (?params v) (outline_reply env (?params v)) = Inr outline"
    by (simp add: promise_race_def split: if_splits)
  from assms v o obtain adjusted where a: "route_reconcile (req_slide_count v) outline = Inr adjusted"
    by (cases "route_reconcile (req_slide_count v) outline") (simp_all add: POST_def Let_def)
  from assms v o a obtain t where t: "totalSlidesInOutline adjusted = Inr t"
    by (cases "totalSlidesInOutline adjusted") (simp_all add: POST_def Let_def)
  from t obtain ss where ss: "out_sections adjusted = Some ss" and red: "reduce_slides_length 0 ss = Inr t"
    by (cases "out_sections adjusted") (simp_all add: totalSlidesInOutline_def)
  from reduce_slides_length_Inr [OF red] have
    present: "\<forall>s \<in> set ss. sec_slides s \<noteq> None" and sum: "t = sum_list (map slides_length_or_0 ss)"
    by simp_all
  note loop = sections_loop_eq [OF present, of env "docSummary_of v" "req_theme v" "[]" 0 "[]"]
  from assms v o a t ss loop have "length (deck_slides d) = length (slots_of_sections ss)"
    by (auto simp: POST_def Let_def)
  with length_slots_of_sections [OF present] sum have "int (length (deck_slides d)) = t"
    by simp
  with v g a t show ?thesis by blast
qed

text \<open>
  Where the count is met: a successful request returns exactly the requested number of
  slides whenever the outline handed to the handler has no more excess slides than its
  last section holds.
\<close>

lemma POST_exact_when_excess_fits:
  assumes ok: "POST env (Inr body) = (Ok200 d, calls)"
    and v: "GenerateDeckRequestSchema_parse body = Inr v"
    and fits: "\<And>params outline t.
        generateOutline params (outline_reply env params) = Inr outline \<Longrightarrow>
        totalSlidesInOutline outline = Inr t \<Longrightarrow> req_slide_count v < t \<Longrightarrow>
        \<exists>ss l. out_sections outline = Some ss \<and> sec_slides (last ss) = Some l
                \<and> t - req_slide_count v \<le> int (length l)"
  shows "int (length (deck_slides d)) = req_slide_count v"
proof -
  from POST_ok_trace [OF ok] v obtain outline adjusted t where
    g: "generateOutline
                 \<lparr>slide_count = req_slide_count v, audience = req_audience v, tone = req_tone v,
                  topic_or_prompt_or_instructions = topic_of v,
                  doc_summary_or_empty = docSummary_of v\<rparr>
                 (outline_reply env
                    \<lparr>slide_count = req_slide_count v, audience = req_audience v, tone = req_tone v,
                     topic_or_prompt_or_instructions = topic_of v,
                     doc_summary_or_empty = docSummary_of v\<rparr>) = Inr outline"
    and a: "route_reconcile (req_slide_count v) outline = Inr adjusted"
    and t: "totalSlidesInOutline adjusted = Inr t"
    and len: "int (length (deck_slides d)) = t"
    by auto
  from a obtain t0 where t0: "totalSlidesInOutline outline = Inr t0"
    by (cases "totalSlidesInOutline outline") (simp_all add: route_reconcile_def)
  from route_reconcile_exact [OF a t0 fits [OF g t0]] t have "t = req_slide_count v"
    by simp
  with len show ?thesis by simp
qed

text \<open>
  C1 (the deck of a successful request holds exactly the requested number of slides) fails
  on the code. Request: three slides. Model answer: five slides, four in the first
  section and one in the last. \<^verbatim>\<open>generateOutline\<close> has to remove two slides but the last
  section holds one: \<^verbatim>\<open>slides.slice(0, 1 - 2)\<close> empties it and four slides remain. The
  handler then calls \<^verbatim>\<open>slice(0, 0 - 1)\<close> on the empty list, which changes nothing, and
  answers 200 with a deck of four slides.
\<close>

theorem POST_slide_count_mismatch:
  "map_sum id req_slide_count (GenerateDeckRequestSchema_parse demo_request) = Inr 3
   \<and> generateOutline demo_params (Inr demo_outline) = Inr demo_truncated
   \<and> route_reconcile 3 demo_truncated = Inr demo_truncated
   \<and> totalSlidesInOutline demo_truncated = Inr 4
   \<and> (case fst (POST demo_env (Inr demo_request)) of
         Ok200 d \<Rightarrow> length (deck_slides d) = 4
       | BadRequest400 msg flds \<Rightarrow> False
       | ServerError500 e \<Rightarrow> False)"
  by code_simp

subsection \<open>Cleaning the model's JSON\<close>

lemma trim_end_hd:
  assumes "\<not> P c"
  shows "\<exists>r. rev (dropWhile P (rev (c # u))) = c # r"
proof (cases "\<forall>x \<in> set (rev u). P x")
  case True
  with assms have "dropWhile P (rev (c # u)) = [c]"
    by (simp add: dropWhile_append)
  then show ?thesis by simp
next
  case False
  then have "dropWhile P (rev (c # u)) = dropWhile P (rev u) @ [c]"
    by (simp add: dropWhile_append)
  then show ?thesis by simp
qed

lemma js_trim_cases: "js_trim s = [] \<or> (\<exists>c r. js_trim s = c # r \<and> \<not> is_space c)"
proof (cases "dropWhile is_space s")
  case Nil
  show ?thesis unfolding js_trim_def Nil by simp
next
  case (Cons c u)
  have "\<not> is_space (hd (dropWhile is_space s))"
    by (rule hd_dropWhile) (simp add: Cons)
  then have c: "\<not> is_space c" by (simp add: Cons)
  from trim_end_hd [of is_space c u, OF c] obtain r where
    "rev (dropWhile is_space (rev (c # u))) = c # r" ..
  then have "js_trim s = c # r" unfolding js_trim_def Cons .
  with c show ?thesis by blast
qed

lemma dropWhile_self: "xs = [] \<or> \<not> P (hd xs) \<Longrightarrow> dropWhile P xs = xs"
  by (cases xs) auto

lemma js_trim_idem: "js_trim (js_trim s) = js_trim s"
proof -
  have a: "dropWhile is_space (js_trim s) = js_trim s"
    using js_trim_cases [of s] by (intro dropWhile_self) auto
  have "js_trim (js_trim s) = rev (dropWhile is_space (rev (js_trim s)))"
    unfolding js_trim_def [of "js_trim s"] a ..
  also have "\<dots> = rev (dropWhile is_space (dropWhile is_space (rev (dropWhile is_space s))))"
    unfolding js_trim_def rev_rev_ident ..
  also have "\<dots> = js_trim s"
    unfolding dropWhile_idem js_trim_def ..
  finally show ?thesis .
qed

lemma json_ws_is_space: "json_ws c \<Longrightarrow> is_space c"
  by (auto simp: json_ws_def is_space_def)

lemma json_number_start: "json_number (c # r) = Some x \<Longrightarrow> c = CHR ''-'' \<or> is_digit c"
  unfolding json_number_def Let_def
  by (cases "c = CHR ''-''") (auto split: if_splits list.splits)

lemma json_value_start:
  assumes "json_value n (c # r) = Some x"
  shows "c \<in> set (''{['' @ [CHR 0x22] @ ''tfn-0123456789'')"
proof (cases n)
  case 0
  with assms show ?thesis by simp
next
  case (Suc m)
  show ?thesis
  proof (cases "c = CHR ''{'' \<or> c = CHR ''['' \<or> c = CHR 0x22 \<or> c = CHR ''t'' \<or> c = CHR ''f'' \<or> c = CHR ''n''")
    case True
    then show ?thesis by auto
  next
    case False
    then have "\<not> startsWith (c # r) ''true''" "\<not> startsWith (c # r) ''false''"
      "\<not> startsWith (c # r) ''null''"
      by (simp_all add: startsWith_def)
    with assms Suc False have "json_number (c # r) = Some x"
      by simp
    from json_number_start [OF this] show ?thesis
      by (auto simp: is_digit_def)
  qed
qed

lemma json_parses_start:
  assumes "json_parses t" and "t = [] \<or> \<not> is_space (hd t)"
  shows "\<exists>c r. t = c # r \<and> c \<in> set (''{['' @ [CHR 0x22] @ ''tfn-0123456789'')"
proof -
  have dw: "dropWhile json_ws t = t"
    using assms(2) json_ws_is_space by (intro dropWhile_self) auto
  from assms(1) obtain x where x: "json_value (2 * length t + 2) t = Some x"
    unfolding json_parses_def dw by (cases "json_value (2 * length t + 2) t") simp_all
  show ?thesis
  proof (cases t)
    case Nil
    with x show ?thesis by simp
  next
    case (Cons c r)
    from x have "json_value (2 * length t + 2) (c # r) = Some x" unfolding Cons .
    from json_value_start [OF this] Cons show ?thesis by blast
  qed
qed

lemma ascii_lower_id:
  "c \<notin> set ''ABCDEFGHIJKLMNOPQRSTUVWXYZ'' \<Longrightarrow> ascii_lower c = c"
proof -
  assume "c \<notin> set ''ABCDEFGHIJKLMNOPQRSTUVWXYZ''"
  then have "map_of (zip ''ABCDEFGHIJKLMNOPQRSTUVWXYZ'' ''abcdefghijklmnopqrstuvwxyz'') c = None"
    by (subst map_of_zip_is_None) simp_all
  then show ?thesis by (simp only: ascii_lower_def option.case)
qed

lemma alternative_mismatch:
  "p \<noteq> [] \<Longrightarrow> ascii_lower c \<noteq> ascii_lower (hd p) \<Longrightarrow>
     map ascii_lower (take (length p) (c # r)) \<noteq> map ascii_lower p"
  by (cases p) auto

lemma first_alternative_mismatch:
  "\<forall>p \<in> set ps. p \<noteq> [] \<and> ascii_lower c \<noteq> ascii_lower (hd p) \<Longrightarrow>
     first_alternative ps (c # r) = None"
  by (induction ps) (simp_all add: alternative_mismatch)

lemma prefix_heads:
  "\<forall>p \<in> set conversational_prefixes. p \<noteq> [] \<and> ascii_lower (hd p) \<in> set ''oshc''"
  by (simp add: conversational_prefixes_def ascii_lower_def)

lemma first_alternative_none:
  assumes "c \<in> set (''{['' @ [CHR 0x22] @ ''tfn-0123456789'')"
  shows "first_alternative conversational_prefixes (c # r) = None"
proof -
  from assms have "c \<notin> set ''ABCDEFGHIJKLMNOPQRSTUVWXYZ''" by auto
  then have l: "ascii_lower c = c" by (rule ascii_lower_id)
  from assms have "c \<notin> set ''oshc''" by auto
  with l prefix_heads have "\<forall>p \<in> set conversational_prefixes. p \<noteq> [] \<and> ascii_lower c \<noteq> ascii_lower (hd p)"
    by metis
  then show ?thesis by (rule first_alternative_mismatch)
qed

lemma not_fence_start:
  "c \<in> set (''{['' @ [CHR 0x22] @ ''tfn-0123456789'') \<Longrightarrow> \<not> startsWith (c # r) (fence @ p)"
  by (auto simp: startsWith_def fence_def)

lemma cleanJSONResponse_trimmed_valid:
  assumes "json_parses t" and "t = [] \<or> \<not> is_space (hd t)" and "js_trim s = t"
  shows "cleanJSONResponse s = t"
proof -
  from json_parses_start [OF assms(1,2)] obtain c r where
    t: "t = c # r" and c: "c \<in> set (''{['' @ [CHR 0x22] @ ''tfn-0123456789'')"
    by blast
  have f1: "\<not> startsWith t (fence @ ''json'')" unfolding t using c by (rule not_fence_start)
  have f2: "\<not> startsWith t fence"
    using not_fence_start [OF c, of r "[]"] unfolding t by simp
  have sc: "strip_conversational t = t"
    unfolding strip_conversational_def t first_alternative_none [OF c] by simp
  show ?thesis
    unfolding cleanJSONResponse_def Let_def assms(3)
    by (simp only: f1 f2 sc assms(1) if_False if_True)
qed

text \<open>
  C5. \<^verbatim>\<open>cleanJSONResponse\<close> validates before it repairs: when the trimmed input is a
  valid JSON text, the result is exactly the trimmed input, and cleaning the result again
  returns it unchanged. (A valid JSON text never starts with a code fence or with one of
  the conversational prefixes, so neither the fence removal nor the prefix removal
  applies, and the escape rewriting is not reached.)
\<close>

theorem cleanJSONResponse_keeps_valid_json:
  assumes "json_parses (js_trim s)"
  shows "cleanJSONResponse s = js_trim s
         \<and> cleanJSONResponse (cleanJSONResponse s) = cleanJSONResponse s
         \<and> \<not> startsWith (js_trim s) fence"
proof -
  have h: "js_trim s = [] \<or> \<not> is_space (hd (js_trim s))"
    using js_trim_cases [of s] by auto
  have a: "cleanJSONResponse s = js_trim s"
    using assms h refl by (rule cleanJSONResponse_trimmed_valid)
  have b: "cleanJSONResponse (js_trim s) = js_trim s"
    using assms h js_trim_idem by (rule cleanJSONResponse_trimmed_valid)
  from json_parses_start [OF assms h] obtain c r where
    t: "js_trim s = c # r" and c: "c \<in> set (''{['' @ [CHR 0x22] @ ''tfn-0123456789'')"
    by blast
  have f: "\<not> startsWith (js_trim s) fence"
    using not_fence_start [OF c, of r "[]"] unfolding t by simp
  from a b f show ?thesis by simp
qed

theorem cleanJSONResponse_keeps_valid_json_witness:
  "json_parses (js_trim demo_json_text)
   \<and> cleanJSONResponse demo_json_text = js_trim demo_json_text
   \<and> cleanJSONResponse (cleanJSONResponse demo_json_text) = cleanJSONResponse demo_json_text
   \<and> js_trim demo_json_text \<noteq> demo_json_text"
proof -
  have p: "json_parses (js_trim demo_json_text)" by code_simp
  have n: "js_trim demo_json_text \<noteq> demo_json_text" by code_simp
  note t = cleanJSONResponse_keeps_valid_json [OF p]
  from p t [THEN conjunct1] t [THEN conjunct2, THEN conjunct1] n show ?thesis
    by (intro conjI)
qed

text \<open>
  C7 (as stated: no exported operation depends on earlier calls). The rate limiter
  refutes it: two calls with the same arguments at the same instant answer differently,
  because the first call left an entry in the map.
\<close>

theorem checkRateLimit_depends_on_history:
  "fst (checkRateLimit ''10.0.0.1'' 1 3600000 0 Map.empty) \<noteq>
   fst (checkRateLimit ''10.0.0.1'' 1 3600000 0
          (snd (checkRateLimit ''10.0.0.1'' 1 3600000 0 Map.empty)))"
  by (simp add: checkRateLimit_def)

text \<open>
  C7 (amended): the only state that survives a call is the rate limiter's map, and a call
  reads and writes nothing but the entry of its own ip: the answer is the same under any
  two maps that agree on that ip, and all other entries are left as they were.
\<close>

theorem checkRateLimit_state_local:
  "m1 ip = m2 ip \<Longrightarrow>
     fst (checkRateLimit ip limit windowMs now m1) = fst (checkRateLimit ip limit windowMs now m2)
     \<and> snd (checkRateLimit ip limit windowMs now m1) ip = snd (checkRateLimit ip limit windowMs now m2) ip
     \<and> (\<forall>k. k \<noteq> ip \<longrightarrow> snd (checkRateLimit ip limit windowMs now m1) k = m1 k)"
  by (simp add: checkRateLimit_def split: option.splits)

theorem checkRateLimit_state_local_witness:
  "fst (checkRateLimit ''a'' 20 1000 5 [''b'' \<mapsto> \<lparr>count = 7, resetTime = 9\<rparr>])
     = fst (checkRateLimit ''a'' 20 1000 5 Map.empty)
   \<and> snd (checkRateLimit ''a'' 20 1000 5 [''b'' \<mapsto> \<lparr>count = 7, resetTime = 9\<rparr>]) ''b''
     = Some \<lparr>count = 7, resetTime = 9\<rparr>"
  using checkRateLimit_state_local
    [of "[''b'' \<mapsto> \<lparr>count = 7, resetTime = 9\<rparr>]" "''a''" Map.empty 20 1000 5]
  by simp

end
